theory Spec2Isabelle
  imports Complex_Main
begin

section \<open>Python values used by \<open>src/io/rio_raster.py\<close>\<close>

text \<open>
  Exceptions are values. Every \<open>raise\<close> of the module, and every failure of a library call
  that the module can see, is an \<open>Inl\<close> of this type; the string is the name or path the
  exception is about.
\<close>

datatype pyerr =
    AttributeError string
  | NameError string
  | ValueError string
  | IndexError string
  | FileNotFoundError string
  | FileExistsError string
  | IsADirectoryError string
  | PermissionError string
  | RasterioIOError string
  | GDALError string
  | LibraryError string

subsection \<open>Strings\<close>

text \<open>\<open>needle in hay\<close> and \<open>hay.endswith(suffix)\<close>.\<close>

fun startswith :: "string \<Rightarrow> string \<Rightarrow> bool" where
  "startswith hay [] = True"
| "startswith [] (n # ns) = False"
| "startswith (h # hs) (n # ns) = (h = n \<and> startswith hs ns)"

fun str_in :: "string \<Rightarrow> string \<Rightarrow> bool" where
  "str_in needle [] = (needle = [])"
| "str_in needle (h # hs) = (startswith (h # hs) needle \<or> str_in needle hs)"


text \<open>
  \<open>s.lower()\<close> itself is a function of the Python runtime (it folds every cased letter of
  Unicode) and is a field of the libraries below. The lowercasing of the letters A to Z
  stands in for it in the concrete values; on ASCII text the two agree.
\<close>

definition ascii_lower_char :: "char \<Rightarrow> char" where
  "ascii_lower_char c =
     (case map_of (zip ''ABCDEFGHIJKLMNOPQRSTUVWXYZ'' ''abcdefghijklmnopqrstuvwxyz'') c of
        None \<Rightarrow> c
      | Some l \<Rightarrow> l)"

definition ascii_lower :: "string \<Rightarrow> string" where
  "ascii_lower s = map ascii_lower_char s"

text \<open>
  \<open>p.rfind(c)\<close>: the index of the last occurrence of \<open>c\<close>, or \<open>-1\<close>.
\<close>

definition rfind :: "string \<Rightarrow> char \<Rightarrow> int" where
  "rfind p c =
     (if c \<in> set p
      then int (length p) - 1 - int (length (takeWhile (\<lambda>x. x \<noteq> c) (rev p)))
      else - 1)"

text \<open>
  \<open>os.path.splitext\<close> (the POSIX version the standard library ships as
  \<open>genericpath._splitext\<close> with separator \<open>/\<close> and extension separator \<open>.\<close>): the
  extension starts at the last dot of the last path component, unless that component
  consists of leading dots only up to there. The \<open>while\<close> loop of the library returns at
  the first character between the separator and the dot that is not a dot.
\<close>

definition splitext :: "string \<Rightarrow> string \<times> string" where
  "splitext p =
     (let sepIndex = rfind p (CHR ''/'');
          dotIndex = rfind p (CHR ''.'')
      in if dotIndex > sepIndex \<and>
            list_ex (\<lambda>x. x \<noteq> CHR ''.'')
              (take (nat (dotIndex - (sepIndex + 1))) (drop (nat (sepIndex + 1)) p))
         then (take (nat dotIndex) p, drop (nat dotIndex) p)
         else (p, []))"

section \<open>Data model\<close>

text \<open>
  A CRS is modelled by its text, the value of \<open>str(crs)\<close>; a missing CRS is \<open>None\<close>, whose
  \<open>str\<close> is the text \<open>None\<close>. The affine transform has the six coefficients
  \<open>a, b, c, d, e, f\<close>. A sample is the value of one pixel: the number an integer or a
  finite float stores, or one of the non-finite floats. The no-data value of a dataset
  is a sample too.
\<close>

type_synonym crs = string

definition py_str :: "crs option \<Rightarrow> string" where
  "py_str c = (case c of None \<Rightarrow> ''None'' | Some t \<Rightarrow> t)"

record affine =
  af_a :: rat
  af_b :: rat
  af_c :: rat
  af_d :: rat
  af_e :: rat
  af_f :: rat

datatype sample = Num rat | NaN | PosInf | NegInf

type_synonym band = "sample list list"

text \<open>
  A numpy array of the module is two-dimensional (rows, columns) or three-dimensional
  (bands, rows, columns), with its \<open>dtype\<close> name.
\<close>

datatype cells = A2 band | A3 "band list"

record ndarray =
  dtype :: string
  cells :: cells

fun shape2 :: "band \<Rightarrow> nat \<times> nat" where
  "shape2 [] = (0, 0)"
| "shape2 (r # rs) = (Suc (length rs), length r)"

fun shape3 :: "band list \<Rightarrow> nat \<times> nat \<times> nat" where
  "shape3 [] = (0, 0, 0)"
| "shape3 (b # bs) = (Suc (length bs), shape2 b)"

text \<open>
  The dataset metadata dictionary (\<open>dataset.meta\<close>): driver, dtype, nodata, width, height,
  count, crs, transform.
\<close>

record meta =
  m_driver :: string
  m_dtype :: string
  m_nodata :: "sample option"
  m_width :: nat
  m_height :: nat
  m_count :: nat
  m_crs :: "crs option"
  m_transform :: affine

text \<open>
  An open rasterio dataset: its name, its metadata, the band arrays and the band
  descriptions.
\<close>

record dataset =
  ds_name :: string
  ds_meta :: meta
  ds_bands :: "band list"
  ds_descriptions :: "string option list"

text \<open>The class \<open>RioRaster\<close>: one attribute, \<open>dataset\<close>, \<open>None\<close> by default.\<close>

record rio_raster =
  dataset :: "dataset option"

definition RioRaster0 :: rio_raster where
  "RioRaster0 = \<lparr>dataset = None\<rparr>"

definition empty :: "rio_raster \<Rightarrow> bool" where
  "empty self = (dataset self = None)"

section \<open>The world outside the module\<close>

text \<open>
  The file system maps a path to a directory, to a file with its text, or to a raster file
  written by the module. \<open>raster_at\<close> is what
  \<open>rio.open(path, mode='r+')\<close> yields for a path, \<open>memfile_at\<close> what
  \<open>rio.MemoryFile(uri).open()\<close> yields, \<open>may_mkdir\<close> whether the process may create a
  directory at a path.
\<close>

datatype node = Dir | File string | Raster dataset

record world =
  fs :: "string \<Rightarrow> node option"
  raster_at :: "string \<Rightarrow> pyerr + dataset"
  memfile_at :: "string \<Rightarrow> pyerr + dataset"
  may_mkdir :: "string \<Rightarrow> bool"

definition exists :: "world \<Rightarrow> string \<Rightarrow> bool" where
  "exists w p = (fs w p \<noteq> None)"

text \<open>
  The AOI of a clip: a bare polygon or multipolygon, or a GeoDataFrame (its CRS, possibly
  missing, and its geometry column in row order). Bounds are
  \<open>(minx, miny, maxx, maxy)\<close>.
\<close>

datatype geometry = Polygon "(rat \<times> rat) list" | MultiPolygon "(rat \<times> rat) list list"

record gdf =
  gdf_crs :: "crs option"
  geometries :: "geometry list"

datatype aoi = Shape geometry | Frame gdf

type_synonym bounds = "rat \<times> rat \<times> rat \<times> rat"

text \<open>
  What the module writes to the terminal, and which library routines it invokes:
  \<open>ToCrs g c\<close> is the call \<open>g.to_crs(c)\<close>, \<open>Mask\<close> a call of \<open>mask\<close>, \<open>OpenWrite p\<close> the call
  \<open>rio.open(p, 'w', ...)\<close>.
\<close>

datatype event =
    Traceback pyerr
  | Print string
  | ToCrs gdf "crs option"
  | Mask
  | OpenWrite string

text \<open>
  The libraries the module calls are black boxes, one field each:
  \<^item> \<open>str_lower\<close>: \<open>str.lower\<close>;
  \<^item> \<open>creatable\<close>: whether \<open>MemoryFile().open(**options)\<close> accepts the creation options
    (driver, dtype, sizes, CRS);
  \<^item> \<open>resample\<close>: what \<open>dst.write\<close> stores of a band whose rows and columns are not those
    of the dataset (the band resampled to the given rows and columns);
  \<^item> \<open>from_wkt\<close>: \<open>CRS.from_wkt\<close>;
  \<^item> \<open>to_nan\<close>: the float conversion of \<open>get_data_array\<close> that rewrites the no-data
    value to NaN;
  \<^item> \<open>to_crs\<close>: \<open>GeoDataFrame.to_crs\<close>;
  \<^item> \<open>geom_bounds\<close>: one row of \<open>GeoDataFrame.bounds\<close>;
  \<^item> \<open>intersects\<close>: \<open>box(*a).intersects(box(*b))\<close>;
  \<^item> \<open>mask\<close>: \<open>rasterio.mask.mask(dataset, geometries, crop, nodata)\<close>, which returns the
    masked bands and their transform;
  \<^item> \<open>rowcol\<close>: \<open>rio.transform.rowcol(transform, xs, ys)\<close> on two points, which returns
    the two rows and the two columns;
  \<^item> \<open>window_transform\<close>: \<open>windows.transform(window, transform)\<close>;
  \<^item> \<open>read_window\<close>: \<open>dataset.read(window, boundless=False, fill_value)\<close>;
  \<^item> \<open>astype_uint8\<close>: \<open>ndarray.astype(np.uint8)\<close> on one sample;
  \<^item> \<open>itemsize\<close>: the bytes of one sample of a dtype;
  \<^item> \<open>open_write\<close>: the exception, if any, that \<open>rio.open(path, 'w', **options)\<close> raises
    where the path is not a directory, given what the file system has at the path.
  A window is \<open>(col_off, row_off, width, height)\<close>.
\<close>

record write_options =
  wo_meta :: meta
  wo_compress :: string
  wo_predictor :: nat
  wo_zlevel :: nat
  wo_bigtiff :: string

record lib =
  str_lower :: "string \<Rightarrow> string"
  creatable :: "meta \<Rightarrow> bool"
  resample :: "band \<Rightarrow> nat \<Rightarrow> nat \<Rightarrow> band"
  from_wkt :: "string \<Rightarrow> pyerr + crs"
  to_nan :: "sample option \<Rightarrow> ndarray \<Rightarrow> ndarray"
  to_crs :: "gdf \<Rightarrow> crs option \<Rightarrow> pyerr + gdf"
  geom_bounds :: "geometry \<Rightarrow> bounds"
  intersects :: "bounds \<Rightarrow> bounds \<Rightarrow> bool"
  mask :: "dataset \<Rightarrow> geometry list \<Rightarrow> bool \<Rightarrow> sample \<Rightarrow> pyerr + (band list \<times> affine)"
  rowcol :: "affine \<Rightarrow> rat \<times> rat \<Rightarrow> rat \<times> rat \<Rightarrow> (int \<times> int) \<times> (int \<times> int)"
  window_transform :: "int \<times> int \<times> int \<times> int \<Rightarrow> affine \<Rightarrow> affine"
  read_window :: "dataset \<Rightarrow> int \<times> int \<times> int \<times> int \<Rightarrow> sample option \<Rightarrow> pyerr + band list"
  astype_uint8 :: "sample \<Rightarrow> sample"
  itemsize :: "string \<Rightarrow> nat"
  open_write :: "node option \<Rightarrow> string \<Rightarrow> write_options \<Rightarrow> pyerr option"

section \<open>In-memory datasets\<close>

text \<open>
  \<open>MemoryFile().open(**options)\<close> creates a dataset with the given metadata and zero-filled
  bands, or fails when the driver refuses the options. The random name of the memory
  file is a fixed text here; it lies under \<open>/vsimem/\<close>.
\<close>

definition memfile_open :: "lib \<Rightarrow> meta \<Rightarrow> pyerr + dataset" where
  "memfile_open l kw =
     (if creatable l kw
      then Inr \<lparr>ds_name = ''/vsimem/memfile/memfile.tif'',
                ds_meta = kw,
                ds_bands = replicate (m_count kw)
                             (replicate (m_height kw) (replicate (m_width kw) (Num 0))),
                ds_descriptions = replicate (m_count kw) None\<rparr>
      else Inl (RasterioIOError ''MemoryFile''))"

text \<open>
  What \<open>dst.write\<close> stores of one band: the band itself when its rows and columns are
  the dataset's, the band resampled to the dataset's rows and columns otherwise. At
  every call of the module the array's dtype is the dataset's, so the samples of a band
  of the dataset's shape are stored as they are.
\<close>

definition fit :: "lib \<Rightarrow> dataset \<Rightarrow> band \<Rightarrow> band" where
  "fit l dst d =
     (if shape2 d = (m_height (ds_meta dst), m_width (ds_meta dst)) then d
      else resample l d (m_height (ds_meta dst)) (m_width (ds_meta dst)))"

text \<open>
  \<open>dst.write(d, idx)\<close> stores a two-dimensional array as band \<open>idx\<close> (counted from 1). It
  raises on a band index outside the dataset.
\<close>

definition ds_write :: "lib \<Rightarrow> dataset \<Rightarrow> band \<Rightarrow> nat \<Rightarrow> pyerr + dataset" where
  "ds_write l dst d idx =
     (if idx < 1 \<or> m_count (ds_meta dst) < idx then Inl (IndexError ''band index out of range'')
      else Inr (dst\<lparr>ds_bands := (ds_bands dst)[idx - 1 := fit l dst d]\<rparr>))"

text \<open>\<open>dataset.read()\<close> returns all bands as a three-dimensional array, \<open>dataset.read(k)\<close>
  band \<open>k\<close> as a two-dimensional one.\<close>

definition ds_read :: "dataset \<Rightarrow> ndarray" where
  "ds_read ds = \<lparr>dtype = m_dtype (ds_meta ds), cells = A3 (ds_bands ds)\<rparr>"

definition ds_read_band :: "dataset \<Rightarrow> nat \<Rightarrow> pyerr + ndarray" where
  "ds_read_band ds k =
     (if 1 \<le> k \<and> k \<le> length (ds_bands ds)
      then Inr \<lparr>dtype = m_dtype (ds_meta ds), cells = A2 (ds_bands ds ! (k - 1))\<rparr>
      else Inl (IndexError ''band index out of range''))"

text \<open>
  The loop \<open>for i in range(bands): d = data if len(data.shape) == 2 else data[i, :, :];
  dst.write(d, i + 1)\<close>.
\<close>

definition band_of :: "ndarray \<Rightarrow> nat \<Rightarrow> pyerr + band" where
  "band_of data i =
     (case cells data of
        A2 d \<Rightarrow> Inr d
      | A3 bs \<Rightarrow> (if i < length bs then Inr (bs ! i) else Inl (IndexError ''index out of bounds'')))"

fun write_loop :: "lib \<Rightarrow> dataset \<Rightarrow> ndarray \<Rightarrow> nat list \<Rightarrow> pyerr + dataset" where
  "write_loop l dst data [] = Inr dst"
| "write_loop l dst data (i # is) =
     (case band_of data i of
        Inl e \<Rightarrow> Inl e
      | Inr d \<Rightarrow>
          (case ds_write l dst d (i + 1) of
             Inl e \<Rightarrow> Inl e
           | Inr dst' \<Rightarrow> write_loop l dst' data is))"

text \<open>\<open>bands = 1 if len(data.shape) == 2 else data.shape[0]\<close>, and rows and columns.\<close>

definition band_count :: "ndarray \<Rightarrow> nat" where
  "band_count data = (case cells data of A2 d \<Rightarrow> 1 | A3 bs \<Rightarrow> fst (shape3 bs))"

definition rows_cols :: "ndarray \<Rightarrow> nat \<times> nat" where
  "rows_cols data = (case cells data of A2 d \<Rightarrow> shape2 d | A3 bs \<Rightarrow> snd (shape3 bs))"

definition rio_dataset_from_array ::
  "lib \<Rightarrow> ndarray \<Rightarrow> meta \<Rightarrow> string option list option \<Rightarrow> pyerr + dataset" where
  "rio_dataset_from_array l data meta descriptions =
     (let bands = band_count data in
      case memfile_open l meta of
        Inl e \<Rightarrow> Inl e
      | Inr dst \<Rightarrow>
          (case write_loop l dst data [0..<bands] of
             Inl e \<Rightarrow> Inl e
           | Inr dst' \<Rightarrow>
               Inr (case descriptions of
                      None \<Rightarrow> dst'
                    | Some ds \<Rightarrow> dst'\<lparr>ds_descriptions := ds\<rparr>)))"

section \<open>Opening a raster\<close>

text \<open>
  The source of \<open>__init__\<close> and \<open>set_dataset\<close>: an open dataset, a string, or an object of
  another type; \<open>None\<close> is the \<open>None\<close> of \<open>source option\<close>.
\<close>

datatype source = SrcReader dataset | SrcStr string | SrcOther

text \<open>
  The body of the \<open>try\<close> of \<open>set_dataset\<close>. Every branch assigns \<open>self.dataset\<close> as its last
  step, so an exception leaves \<open>self\<close> as it was.
\<close>

definition set_dataset_try :: "lib \<Rightarrow> world \<Rightarrow> rio_raster \<Rightarrow> source \<Rightarrow> pyerr + rio_raster" where
  "set_dataset_try l w self src =
     (case
        (case src of
           SrcReader r \<Rightarrow>
             (if str_in ''/vsipythonfilelike/'' (ds_name r)
              then (case rio_dataset_from_array l (ds_read r) (ds_meta r) None of
                      Inl e \<Rightarrow> Inl e
                    | Inr d \<Rightarrow> Inr (self\<lparr>dataset := Some d\<rparr>))
              else Inr (self\<lparr>dataset := Some r\<rparr>))
         | SrcStr s \<Rightarrow>
             (if str_in ''/vsimem/'' s
              then (case memfile_at w s of
                      Inl e \<Rightarrow> Inl e
                    | Inr d \<Rightarrow> Inr (self\<lparr>dataset := Some d\<rparr>))
              else if exists w s
              then (case raster_at w s of
                      Inl e \<Rightarrow> Inl e
                    | Inr d \<Rightarrow> Inr (self\<lparr>dataset := Some d\<rparr>))
              else Inl (FileNotFoundError s))
         | SrcOther \<Rightarrow> Inr self)
      of
        Inl e \<Rightarrow> Inl e
      | Inr self' \<Rightarrow>
          (if dataset self' = None then Inl (ValueError ''Dataset could not be set. It is None.'')
           else Inr self'))"

text \<open>
  \<open>set_dataset\<close>: \<open>except Exception\<close> catches whatever the body raises and prints the
  traceback; nothing is raised to the caller.
\<close>

definition set_dataset :: "lib \<Rightarrow> world \<Rightarrow> rio_raster \<Rightarrow> source \<Rightarrow> rio_raster \<times> event list" where
  "set_dataset l w self src =
     (case set_dataset_try l w self src of
        Inl e \<Rightarrow> (self, [Traceback e])
      | Inr self' \<Rightarrow> (self', []))"

text \<open>
  \<open>add_crs_from_prj\<close>: the extension returned by \<open>os.path.splitext\<close> is compared with the
  text \<open>prj\<close>; only then is the file read and the CRS of the dataset replaced.
\<close>

definition add_crs_from_prj :: "lib \<Rightarrow> world \<Rightarrow> rio_raster \<Rightarrow> string \<Rightarrow> pyerr + rio_raster" where
  "add_crs_from_prj l w self prj_file =
     (let (ame, ext) = splitext prj_file in
      if ext = ''prj''
      then (case fs w prj_file of
              None \<Rightarrow> Inl (FileNotFoundError prj_file)
            | Some Dir \<Rightarrow> Inl (IsADirectoryError prj_file)
            | Some (Raster d) \<Rightarrow> Inl (ValueError ''the file is not text'')
            | Some (File wkt) \<Rightarrow>
                (case from_wkt l wkt of
                   Inl e \<Rightarrow> Inl e
                 | Inr c \<Rightarrow>
                     (case dataset self of
                        None \<Rightarrow> Inl (AttributeError ''crs'')
                      | Some d \<Rightarrow>
                          Inr (self\<lparr>dataset := Some (d\<lparr>ds_meta := (ds_meta d)\<lparr>m_crs := Some c\<rparr>\<rparr>)\<rparr>))))
      else Inr self)"

text \<open>
  \<open>RioRaster(src, prj_path)\<close>: the constructor. It returns the new object and what was
  printed, or the exception that \<open>add_crs_from_prj\<close> raised.
\<close>

definition init ::
  "lib \<Rightarrow> world \<Rightarrow> source option \<Rightarrow> string option \<Rightarrow> (pyerr + rio_raster) \<times> event list" where
  "init l w src prj_path =
     (case src of
        None \<Rightarrow> (Inr RioRaster0, [])
      | Some s \<Rightarrow>
          (let (self1, out) = set_dataset l w RioRaster0 s in
           case prj_path of
             None \<Rightarrow> (Inr self1, out)
           | Some prj \<Rightarrow>
               (if exists w prj
                then (case add_crs_from_prj l w self1 prj of
                        Inl e \<Rightarrow> (Inl e, out)
                      | Inr self2 \<Rightarrow> (Inr self2, out))
                else (Inr self1, out))))"

subsection \<open>Accessors\<close>

text \<open>On an empty handle \<open>self.dataset\<close> is \<open>None\<close>, and reading an attribute of \<open>None\<close>
  raises \<open>AttributeError\<close>.\<close>

definition get_meta :: "rio_raster \<Rightarrow> pyerr + meta" where
  "get_meta self = (case dataset self of None \<Rightarrow> Inl (AttributeError ''meta'') | Some d \<Rightarrow> Inr (ds_meta d))"

definition get_crs :: "rio_raster \<Rightarrow> pyerr + crs option" where
  "get_crs self =
     (case dataset self of None \<Rightarrow> Inl (AttributeError ''crs'') | Some d \<Rightarrow> Inr (m_crs (ds_meta d)))"

definition get_geo_transform :: "rio_raster \<Rightarrow> pyerr + affine" where
  "get_geo_transform self =
     (case dataset self of
        None \<Rightarrow> Inl (AttributeError ''profile'')
      | Some d \<Rightarrow> Inr (m_transform (ds_meta d)))"

definition get_nodata_value :: "rio_raster \<Rightarrow> pyerr + sample option" where
  "get_nodata_value self =
     (case dataset self of
        None \<Rightarrow> Inl (AttributeError ''meta'')
      | Some d \<Rightarrow> Inr (m_nodata (ds_meta d)))"

text \<open>
  \<open>get_data_array(band, convert_no_data_2_nan)\<close>: \<open>if band:\<close> is false for \<open>None\<close> and for 0,
  and then all bands are read.
\<close>

definition get_data_array :: "lib \<Rightarrow> rio_raster \<Rightarrow> nat option \<Rightarrow> bool \<Rightarrow> pyerr + ndarray" where
  "get_data_array l self band convert_no_data_2_nan =
     (case dataset self of
        None \<Rightarrow> Inl (ValueError ''raster dataset is empty'')
      | Some d \<Rightarrow>
          (case (case band of
                   None \<Rightarrow> Inr (ds_read d)
                 | Some k \<Rightarrow> (if k = 0 then Inr (ds_read d) else ds_read_band d k)) of
             Inl e \<Rightarrow> Inl e
           | Inr data_arr \<Rightarrow>
               Inr (if convert_no_data_2_nan then to_nan l (m_nodata (ds_meta d)) data_arr
                    else data_arr)))"

section \<open>Materializing an array\<close>

text \<open>
  \<open>raster_from_array\<close>: the whole body is inside \<open>try\<close>; \<open>except Exception\<close> prints the
  error and the traceback and returns \<open>None\<close>. The new object is built by
  \<open>RioRaster(dataset)\<close>, that is \<open>init\<close> without a projection file.
\<close>

definition raster_from_array ::
  "lib \<Rightarrow> world \<Rightarrow> ndarray \<Rightarrow> crs option \<Rightarrow> affine \<Rightarrow> sample option \<Rightarrow>
   rio_raster option \<times> event list" where
  "raster_from_array l w img_arr crs g_transform nodata_value =
     (let bands = band_count img_arr;
          (rows, cols) = rows_cols img_arr;
          options = \<lparr>m_driver = ''GTiff'', m_dtype = dtype img_arr, m_nodata = nodata_value,
                     m_width = cols, m_height = rows, m_count = bands, m_crs = crs,
                     m_transform = g_transform\<rparr>
      in case (case memfile_open l options of
                 Inl e \<Rightarrow> Inl e
               | Inr dst \<Rightarrow> write_loop l dst img_arr [0..<bands]) of
           Inl e \<Rightarrow> (None, [Print ''Error creating raster from array'', Traceback e])
         | Inr dst \<Rightarrow>
             (case init l w (Some (SrcReader dst)) None of
                (Inl e, out) \<Rightarrow> (None, out @ [Print ''Error creating raster from array'', Traceback e])
              | (Inr new_raster, out) \<Rightarrow> (Some new_raster, out)))"

text \<open>
  \<open>rio_raster_from_array\<close>: the metadata, CRS, transform and no-data value are read from
  \<open>self\<close>; on an empty handle the first read raises.
\<close>

definition rio_raster_from_array ::
  "lib \<Rightarrow> world \<Rightarrow> rio_raster \<Rightarrow> ndarray \<Rightarrow> (pyerr + rio_raster option) \<times> event list" where
  "rio_raster_from_array l w self img_arr =
     (case get_meta self of
        Inl e \<Rightarrow> (Inl e, [])
      | Inr meta_data \<Rightarrow>
          (case get_crs self of
             Inl e \<Rightarrow> (Inl e, [])
           | Inr c \<Rightarrow>
               (case get_geo_transform self of
                  Inl e \<Rightarrow> (Inl e, [])
                | Inr t \<Rightarrow>
                    (case get_nodata_value self of
                       Inl e \<Rightarrow> (Inl e, [])
                     | Inr nd \<Rightarrow>
                         (let (raster, out) = raster_from_array l w img_arr c t nd
                          in (Inr raster, out))))))"

text \<open>
  The bands of an array, a two-dimensional array being its own single band; and the
  property of a numpy array that all its bands have one shape.
\<close>

definition as_bands :: "ndarray \<Rightarrow> band list" where
  "as_bands a = (case cells a of A2 d \<Rightarrow> [d] | A3 bs \<Rightarrow> bs)"

definition uniform :: "ndarray \<Rightarrow> bool" where
  "uniform a =
     (case cells a of A2 d \<Rightarrow> True | A3 bs \<Rightarrow> list_all (\<lambda>b. shape2 b = snd (shape3 bs)) bs)"

section \<open>Names the module uses and does not define\<close>

text \<open>
  \<open>clip_raster\<close> and \<open>pad_raster\<close> call \<open>self.get_bounds()\<close>, \<open>reclassify_raster\<close> calls
  \<open>self.get_spectral_resolution()\<close> and \<open>BandProcess.reclassify_band(...)\<close>. A name space says
  for each of the three names whether it is bound, and to which function. Looking up an
  unbound attribute of the object raises \<open>AttributeError\<close>, an unbound global name
  \<open>NameError\<close>.
\<close>

datatype cond = Lt rat | Gt rat | Range rat rat

type_synonym thresholds = "(string \<times> cond \<times> sample) list"

record namespace =
  get_bounds :: "(rio_raster \<Rightarrow> pyerr + bounds) option"
  get_spectral_resolution :: "(rio_raster \<Rightarrow> pyerr + nat) option"
  BandProcess :: "(ndarray \<Rightarrow> thresholds \<Rightarrow> sample \<Rightarrow> pyerr + ndarray) option"

text \<open>
  The name space of \<open>rio_raster.py\<close> as it is: the class \<open>RioRaster\<close> has no base class and
  defines neither \<open>get_bounds\<close> nor \<open>get_spectral_resolution\<close>, and the module neither
  imports nor defines \<open>BandProcess\<close>.
\<close>

definition module_namespace :: namespace where
  "module_namespace = \<lparr>get_bounds = None, get_spectral_resolution = None, BandProcess = None\<rparr>"

definition call_get_bounds :: "namespace \<Rightarrow> rio_raster \<Rightarrow> pyerr + bounds" where
  "call_get_bounds ns self =
     (case get_bounds ns of None \<Rightarrow> Inl (AttributeError ''get_bounds'') | Some f \<Rightarrow> f self)"

definition call_get_spectral_resolution :: "namespace \<Rightarrow> rio_raster \<Rightarrow> pyerr + nat" where
  "call_get_spectral_resolution ns self =
     (case get_spectral_resolution ns of
        None \<Rightarrow> Inl (AttributeError ''get_spectral_resolution'')
      | Some f \<Rightarrow> f self)"

definition call_reclassify_band ::
  "namespace \<Rightarrow> ndarray \<Rightarrow> thresholds \<Rightarrow> sample \<Rightarrow> pyerr + ndarray" where
  "call_reclassify_band ns img_arr th nodata =
     (case BandProcess ns of None \<Rightarrow> Inl (NameError ''BandProcess'') | Some f \<Rightarrow> f img_arr th nodata)"

section \<open>Clipping\<close>

text \<open>What \<open>clip_raster\<close> returns: \<open>self\<close>, or a new object.\<close>

datatype clip_result = ReturnSelf | ReturnNew rio_raster

text \<open>
  The AOI as a frame: a bare polygon or multipolygon is wrapped by
  \<open>gpd.GeoDataFrame(geometry=[aoi], crs=crs)\<close>.
\<close>

definition as_frame :: "aoi \<Rightarrow> crs option \<Rightarrow> gdf" where
  "as_frame a crs = (case a of Shape g \<Rightarrow> \<lparr>gdf_crs = crs, geometries = [g]\<rparr> | Frame f \<Rightarrow> f)"

text \<open>The call \<open>g.to_crs(c)\<close>: what the library returns or raises, and the event of the call.\<close>

definition call_to_crs :: "lib \<Rightarrow> gdf \<Rightarrow> crs option \<Rightarrow> (pyerr + gdf) \<times> event list" where
  "call_to_crs l g c = (to_crs l g c, [ToCrs g c])"

text \<open>
  \<open>clip_raster(aoi, in_place, crs)\<close>. The result is what is returned or raised, the state
  of \<open>self\<close> afterwards, and the events in the order they happen: that of the call of
  \<open>to_crs\<close>, \<open>Mask\<close> when \<open>mask\<close> is called, and the printed line. \<open>RioRaster(None)\<close> is the
  object without a dataset; \<open>self.dataset.dtypes[0]\<close> raises on a dataset without bands.
\<close>

definition clip_raster ::
  "lib \<Rightarrow> world \<Rightarrow> namespace \<Rightarrow> rio_raster \<Rightarrow> aoi \<Rightarrow> bool \<Rightarrow> crs option \<Rightarrow>
   (pyerr + clip_result) \<times> rio_raster \<times> event list" where
  "clip_raster l w ns self aoi0 in_place crs =
     (let aoi = as_frame aoi0 crs in
      case get_crs self of
        Inl e \<Rightarrow> (Inl e, self, [])
      | Inr self_crs \<Rightarrow>
          (let (reprojected, ev) =
                 (if str_lower l (py_str (gdf_crs aoi)) \<noteq> str_lower l (py_str self_crs)
                  then call_to_crs l aoi self_crs
                  else (Inr aoi, []))
           in case reprojected of
                Inl e \<Rightarrow> (Inl e, self, ev)
              | Inr geo \<Rightarrow>
                  (case call_get_bounds ns self of
                     Inl e \<Rightarrow> (Inl e, self, ev)
                   | Inr raster_bounds \<Rightarrow>
                       (let aoi_bounds_list = map (geom_bounds l) (geometries geo);
                            does_not_intersect =
                              list_all (\<lambda>aoi_bounds. \<not> intersects l raster_bounds aoi_bounds)
                                aoi_bounds_list
                        in if does_not_intersect
                           then (Inr (ReturnNew RioRaster0),
                                 (if in_place then self\<lparr>dataset := None\<rparr> else self),
                                 ev @ [Print ''Raster does not intersect with AOI, returning an empty raster''])
                           else
                             (case dataset self of
                                None \<Rightarrow> (Inl (AttributeError ''dtypes''), self, ev)
                              | Some ds \<Rightarrow>
                                  (let nodata_value = Num 0 in
                                   if m_count (ds_meta ds) = 0
                                   then (Inl (IndexError ''dtypes''), self, ev)
                                   else
                                   case mask l ds (geometries geo) True nodata_value of
                                     Inl e \<Rightarrow> (Inl e, self, ev @ [Mask])
                                   | Inr (out_img, out_transform) \<Rightarrow>
                                       (let out_meta = (ds_meta ds)
                                              \<lparr>m_driver := ''GTiff'',
                                               m_height := fst (snd (shape3 out_img)),
                                               m_width := snd (snd (shape3 out_img)),
                                               m_transform := out_transform,
                                               m_nodata := Some nodata_value,
                                               m_crs := m_crs (ds_meta ds)\<rparr>;
                                            descriptions = ds_descriptions ds
                                        in case rio_dataset_from_array l
                                                  \<lparr>dtype = m_dtype (ds_meta ds), cells = A3 out_img\<rparr>
                                                  out_meta (Some descriptions) of
                                             Inl e \<Rightarrow> (Inl e, self, ev @ [Mask])
                                           | Inr new_ds \<Rightarrow>
                                               (if in_place
                                                then (Inr ReturnSelf, self\<lparr>dataset := Some new_ds\<rparr>,
                                                      ev @ [Mask])
                                                else
                                                  (case init l w (Some (SrcReader new_ds)) None of
                                                     (Inl e, out) \<Rightarrow> (Inl e, self, ev @ [Mask] @ out)
                                                   | (Inr r, out) \<Rightarrow>
                                                       (Inr (ReturnNew r), self, ev @ [Mask] @ out))))))))))"

text \<open>The calls of \<open>to_crs\<close> among the events, each with the frame and the CRS handed over.\<close>

fun reprojections :: "event list \<Rightarrow> (gdf \<times> crs option) list" where
  "reprojections [] = []"
| "reprojections (ToCrs g c # es) = (g, c) # reprojections es"
| "reprojections (e # es) = reprojections es"

section \<open>Aligning to another raster\<close>

text \<open>\<open>dst.write(data)\<close> without band indexes: the array must have one band per band of
  the dataset; each is stored as \<open>dst.write\<close> stores a band.\<close>

definition ds_write_all :: "lib \<Rightarrow> dataset \<Rightarrow> band list \<Rightarrow> pyerr + dataset" where
  "ds_write_all l dst bs =
     (if length bs = m_count (ds_meta dst)
      then Inr (dst\<lparr>ds_bands := map (fit l dst) bs\<rparr>)
      else Inl (ValueError ''Source shape is inconsistent with given indexes''))"

text \<open>
  \<open>pad_raster(des_raster)\<close>: the result is what is raised, if anything, and the state of
  \<open>self\<close> afterwards. The bounds of \<open>des_raster\<close> are \<open>(minx, miny, maxx, maxy)\<close>; the two
  points handed to \<open>rowcol\<close> are \<open>(minx, maxy)\<close> and \<open>(maxx, miny)\<close>.
\<close>

definition pad_raster ::
  "lib \<Rightarrow> namespace \<Rightarrow> rio_raster \<Rightarrow> rio_raster \<Rightarrow> (pyerr + unit) \<times> rio_raster" where
  "pad_raster l ns self des_raster =
     (case get_geo_transform self of
        Inl e \<Rightarrow> (Inl e, self)
      | Inr aff \<Rightarrow>
          (case call_get_bounds ns des_raster of
             Inl e \<Rightarrow> (Inl e, self)
           | Inr (minx, miny, maxx, maxy) \<Rightarrow>
               (let ((row0, row1), (col0, col1)) = rowcol l aff (minx, maxx) (maxy, miny);
                    height = row1 - row0;
                    width = col1 - col0;
                    window = (col0, row0, width, height);
                    window_tr = window_transform l window aff
                in case dataset self of
                     None \<Rightarrow> (Inl (AttributeError ''meta''), self)
                   | Some ds \<Rightarrow>
                       (if width < 0 \<or> height < 0
                        then (Inl (LibraryError ''negative size''), self)
                        else
                          (let kwargs = (ds_meta ds)
                                 \<lparr>m_crs := m_crs (ds_meta ds),
                                  m_transform := window_tr,
                                  m_width := nat width,
                                  m_height := nat height\<rparr>
                           in case memfile_open l kwargs of
                                Inl e \<Rightarrow> (Inl e, self)
                              | Inr dst \<Rightarrow>
                                  (case read_window l ds window (m_nodata (ds_meta ds)) of
                                     Inl e \<Rightarrow> (Inl e, self)
                                   | Inr data \<Rightarrow>
                                       (case ds_write_all l dst data of
                                          Inl e \<Rightarrow> (Inl e, self)
                                        | Inr dst' \<Rightarrow> (Inr (), self\<lparr>dataset := Some dst'\<rparr>))))))))"

section \<open>Reclassifying\<close>

text \<open>
  The loop of \<open>reclassify_raster\<close> over \<open>range(no_of_bands)\<close>: read band \<open>band_no + 1\<close>,
  squeeze it, look up \<open>BandProcess\<close> and call \<open>reclassify_band\<close>, append the result. The
  squeeze is part of the black box \<open>BandProcess\<close> stands for.
\<close>

fun reclassify_loop ::
  "lib \<Rightarrow> namespace \<Rightarrow> rio_raster \<Rightarrow> thresholds \<Rightarrow> sample \<Rightarrow> nat list \<Rightarrow> ndarray list \<Rightarrow>
   pyerr + ndarray list" where
  "reclassify_loop l ns self th nodata [] res = Inr res"
| "reclassify_loop l ns self th nodata (band_no # rest) res =
     (case get_data_array l self (Some (band_no + 1)) False of
        Inl e \<Rightarrow> Inl e
      | Inr img_arr \<Rightarrow>
          (case call_reclassify_band ns img_arr th nodata of
             Inl e \<Rightarrow> Inl e
           | Inr classified_data \<Rightarrow> reclassify_loop l ns self th nodata rest (res @ [classified_data])))"

text \<open>\<open>np.stack(res, axis=0)\<close> of two-dimensional arrays of one shape, and
  \<open>astype(np.uint8)\<close>.\<close>

definition np_stack :: "ndarray list \<Rightarrow> pyerr + ndarray" where
  "np_stack res =
     (case res of
        [] \<Rightarrow> Inl (ValueError ''need at least one array to stack'')
      | a # as \<Rightarrow>
          (case cells a of
             A3 bs \<Rightarrow> Inl (LibraryError ''stack of three-dimensional arrays'')
           | A2 d \<Rightarrow>
               (if list_all (\<lambda>x. case cells x of A2 y \<Rightarrow> shape2 y = shape2 d | A3 ys \<Rightarrow> False) as
                then Inr \<lparr>dtype = dtype a,
                          cells = A3 (map (\<lambda>x. case cells x of A2 y \<Rightarrow> y | A3 ys \<Rightarrow> []) res)\<rparr>
                else Inl (ValueError ''all input arrays must have the same shape''))))"

definition astype_u8 :: "lib \<Rightarrow> ndarray \<Rightarrow> ndarray" where
  "astype_u8 l a =
     \<lparr>dtype = ''uint8'',
      cells = (case cells a of
                 A2 d \<Rightarrow> A2 (map (map (astype_uint8 l)) d)
               | A3 bs \<Rightarrow> A3 (map (map (map (astype_uint8 l))) bs))\<rparr>"

text \<open>
  \<open>reclassify_raster(thresholds, band, nodata)\<close>: what is returned or raised, the state of
  \<open>self\<close> afterwards (the method assigns nothing to \<open>self\<close>), and what was printed. With no
  band the result list stays a Python list, which has no \<open>astype\<close>.
\<close>

definition reclassify_raster ::
  "lib \<Rightarrow> world \<Rightarrow> namespace \<Rightarrow> rio_raster \<Rightarrow> thresholds \<Rightarrow> nat option \<Rightarrow> sample \<Rightarrow>
   (pyerr + rio_raster option) \<times> rio_raster \<times> event list" where
  "reclassify_raster l w ns self th band nodata0 =
     (case get_nodata_value self of
        Inl e \<Rightarrow> (Inl e, self, [])
      | Inr nd \<Rightarrow>
          (let nodata = (case nd of None \<Rightarrow> nodata0 | Some v \<Rightarrow> (if v \<noteq> nodata0 then v else nodata0)) in
           case call_get_spectral_resolution ns self of
             Inl e \<Rightarrow> (Inl e, self, [])
           | Inr no_of_bands \<Rightarrow>
               (case reclassify_loop l ns self th nodata [0..<no_of_bands] [] of
                  Inl e \<Rightarrow> (Inl e, self, [])
                | Inr res \<Rightarrow>
                    (if no_of_bands > 0
                     then (case np_stack res of
                             Inl e \<Rightarrow> (Inl e, self, [])
                           | Inr stacked \<Rightarrow>
                               (let (r, out) = rio_raster_from_array l w self (astype_u8 l stacked)
                                in (r, self, out)))
                     else (Inl (AttributeError ''astype''), self, [])))))"

section \<open>Writing a file\<close>

text \<open>
  \<open>os.makedirs(name, exist_ok=True)\<close>: creates the directory \<open>name\<close> and every missing
  directory above it. It raises on the empty path, on a path that is a file, and when
  the operating system refuses. The directories above \<open>name\<close> are the prefixes of the text
  that end before a \<open>/\<close>.
\<close>

definition ancestors :: "string \<Rightarrow> string list" where
  "ancestors p = map (\<lambda>i. take i p) (filter (\<lambda>i. p ! i = CHR ''/'') [1..<length p])"

definition os_makedirs :: "world \<Rightarrow> string \<Rightarrow> pyerr + world" where
  "os_makedirs w name =
     (if name = [] then Inl (FileNotFoundError name)
      else (case fs w name of
              Some Dir \<Rightarrow> Inr w
            | Some (File t) \<Rightarrow> Inl (FileExistsError name)
            | Some (Raster d) \<Rightarrow> Inl (FileExistsError name)
            | None \<Rightarrow>
                (if may_mkdir w name
                 then Inr (w\<lparr>fs := (\<lambda>q. if q = name \<or> (q \<in> set (ancestors name) \<and> fs w q = None)
                                         then Some Dir else fs w q)\<rparr>)
                 else Inl (PermissionError name))))"




section \<open>Concrete values\<close>

text \<open>
  A two by two raster of one band in \<open>EPSG:4326\<close>, stored at \<open>/data/a.tif\<close> beside a
  projection file \<open>/data/a.prj\<close> that holds another CRS, and simple stand-ins for the
  libraries: the letters A to Z are lowercased, every creation is accepted, resampling
  gives zeros, a WKT text is its own CRS, reprojection only relabels the frame, a
  polygon has the bounds of the unit square at its first corner, boxes intersect when
  they overlap on both axes, the mask keeps the bands, and every file that is not a
  directory can be opened for writing.
\<close>

definition demo_transform :: affine where
  "demo_transform = \<lparr>af_a = 1, af_b = 0, af_c = 0, af_d = 0, af_e = - 1, af_f = 2\<rparr>"

definition demo_meta :: meta where
  "demo_meta = \<lparr>m_driver = ''GTiff'', m_dtype = ''uint8'', m_nodata = Some (Num 255),
                 m_width = 2,
                 m_height = 2, m_count = 1, m_crs = Some ''EPSG:4326'',
                 m_transform = demo_transform\<rparr>"

definition demo_ds :: dataset where
  "demo_ds = \<lparr>ds_name = ''/data/a.tif'', ds_meta = demo_meta,                ds_bands = [[[Num 1, Num 2], [Num 3, Num 4]]], ds_descriptions = [None]\<rparr>"

definition demo_raster :: rio_raster where
  "demo_raster = \<lparr>dataset = Some demo_ds\<rparr>"

definition demo_lib :: lib where
  "demo_lib =
     \<lparr>str_lower = ascii_lower,
      creatable = (\<lambda>kw. True),
      resample = (\<lambda>d rows cols. replicate rows (replicate cols (Num 0))),
      from_wkt = (\<lambda>t. Inr t),
      to_nan = (\<lambda>nd a. a),
      to_crs = (\<lambda>g c. Inr (g\<lparr>gdf_crs := c\<rparr>)),
      geom_bounds = (\<lambda>g. case g of
                             Polygon ((x, y) # ps) \<Rightarrow> (x, y, x + 1, y + 1)
                           | _ \<Rightarrow> (10, 10, 11, 11)),
      intersects = (\<lambda>(ax0, ay0, ax1, ay1) (bx0, by0, bx1, by1).
                      ax0 \<le> bx1 \<and> bx0 \<le> ax1 \<and> ay0 \<le> by1 \<and> by0 \<le> ay1),
      mask = (\<lambda>ds gs crop nd. Inr (ds_bands ds, m_transform (ds_meta ds))),
      rowcol = (\<lambda>t xs ys. ((0, 2), (0, 2))),
      window_transform = (\<lambda>win t. t),
      read_window = (\<lambda>ds win fill. Inr (ds_bands ds)),
      astype_uint8 = (\<lambda>v. case v of Num r \<Rightarrow> Num (of_int (\<lfloor>r\<rfloor> mod 256)) | _ \<Rightarrow> Num 0),
      itemsize = (\<lambda>t. 1),
      open_write = (\<lambda>n p opts. None)\<rparr>"

definition demo_world :: world where
  "demo_world =
     \<lparr>fs = [''/data/a.tif'' \<mapsto> Raster demo_ds, ''/data/a.prj'' \<mapsto> File ''EPSG:32643''],
      raster_at = (\<lambda>p. if p = ''/data/a.tif'' then Inr demo_ds else Inl (RasterioIOError p)),
      memfile_at = (\<lambda>p. Inl (RasterioIOError p)),
      may_mkdir = (\<lambda>p. True)\<rparr>"

text \<open>
  The thresholds of the docstring of \<open>reclassify_raster\<close>, an AOI far from the raster and
  one on it (whose CRS text differs from the raster's in case only), and a name space
  in which the three names are bound: the bounds of the demo raster, the band count, and
  a band classifier that returns its input.
\<close>

definition demo_thresholds :: thresholds where
  "demo_thresholds =
     [(''water'', Lt (15 / 1000), Num 4), (''built-up'', Range (15 / 1000) (2 / 100), Num 1),
      (''barren'', Range (7 / 100) (27 / 100), Num 2), (''vegetation'', Gt (27 / 100), Num 3)]"

definition demo_far :: aoi where
  "demo_far = Frame \<lparr>gdf_crs = Some ''EPSG:4326'',
                      geometries = [Polygon [(10, 10), (11, 10), (11, 11), (10, 11)]]\<rparr>"

definition demo_near :: aoi where
  "demo_near = Frame \<lparr>gdf_crs = Some ''epsg:4326'',
                       geometries = [Polygon [(0, 0), (1, 0), (1, 1), (0, 1)]]\<rparr>"

definition demo_namespace :: namespace where
  "demo_namespace =
     \<lparr>get_bounds = Some (\<lambda>self. Inr (0, 0, 2, 2)),
      get_spectral_resolution =
        Some (\<lambda>self. case dataset self of
                        None \<Rightarrow> Inl (AttributeError ''count'')
                      | Some d \<Rightarrow> Inr (m_count (ds_meta d))),
      BandProcess = Some (\<lambda>a th nd. Inr a)\<rparr>"

text \<open>A two-dimensional array, a three-dimensional one of two bands, and a
  three-dimensional array of floats with a NaN and an infinity.\<close>

definition demo_array2 :: ndarray where
  "demo_array2 = \<lparr>dtype = ''uint8'', cells = A2 [[Num 1, Num 2], [Num 3, Num 4]]\<rparr>"

definition demo_array3 :: ndarray where
  "demo_array3 =
     \<lparr>dtype = ''int16'',
      cells = A3 [[[Num 1, Num 2], [Num 3, Num 4]], [[Num 5, Num 6], [Num 7, Num 8]]]\<rparr>"

definition demo_floats :: ndarray where
  "demo_floats =
     \<lparr>dtype = ''float32'', cells = A3 [[[Num (1 / 2), NaN], [Num (- 3 / 4), PosInf]]]\<rparr>"

section \<open>Properties of the string helpers\<close>

lemma takeWhile_neq_less: "c \<in> set xs \<Longrightarrow> length (takeWhile (\<lambda>x. x \<noteq> c) xs) < length xs"
  by (induction xs) auto

lemma rfind_lower: "- 1 \<le> rfind p c"
proof (cases "c \<in> set p")
  case True
  then have "length (takeWhile (\<lambda>x. x \<noteq> c) (rev p)) < length p"
    using takeWhile_neq_less[of c "rev p"] by simp
  with True show ?thesis by (simp add: rfind_def)
next
  case False
  then show ?thesis by (simp add: rfind_def)
qed

lemma rfind_nth: "0 \<le> rfind p c \<Longrightarrow> nat (rfind p c) < length p \<and> p ! nat (rfind p c) = c"
proof -
  assume h: "0 \<le> rfind p c"
  then have mem: "c \<in> set p" by (auto simp: rfind_def split: if_splits)
  let ?k = "length (takeWhile (\<lambda>x. x \<noteq> c) (rev p))"
  have k: "?k < length p"
    using mem takeWhile_neq_less[of c "rev p"] by simp
  have "rev p ! ?k = c"
    using mem nth_length_takeWhile[of "\<lambda>x. x \<noteq> c" "rev p"] k by auto
  then have "p ! (length p - Suc ?k) = c"
    using k by (simp add: rev_nth)
  moreover have "nat (rfind p c) = length p - Suc ?k"
    using mem k by (simp add: rfind_def nat_diff_distrib)
  ultimately show ?thesis using k by auto
qed

text \<open>The extension that \<open>splitext\<close> returns is empty or starts with a dot.\<close>

lemma splitext_ext: "snd (splitext p) = [] \<or> hd (snd (splitext p)) = CHR ''.''"
proof (cases "rfind p (CHR ''.'') > rfind p (CHR ''/'') \<and>
            list_ex (\<lambda>x. x \<noteq> CHR ''.'')
              (take (nat (rfind p (CHR ''.'') - (rfind p (CHR ''/'') + 1)))
                 (drop (nat (rfind p (CHR ''/'') + 1)) p))")
  case True
  have "- 1 \<le> rfind p (CHR ''/'')" by (rule rfind_lower)
  with True have "0 \<le> rfind p (CHR ''.'')" by linarith
  from rfind_nth[OF this] have "hd (drop (nat (rfind p (CHR ''.''))) p) = CHR ''.''"
    by (simp add: hd_drop_conv_nth)
  with True show ?thesis by (simp add: splitext_def Let_def)
next
  case False
  then show ?thesis by (auto simp add: splitext_def Let_def)
qed

lemma splitext_not_prj: "snd (splitext p) \<noteq> ''prj''"
  using splitext_ext[of p] by auto

section \<open>Opening: the projection file and the missing path\<close>

text \<open>
  The comparison \<open>ext == "prj"\<close> never holds, so \<open>add_crs_from_prj\<close> returns without
  touching the object, whatever the file holds, and a constructor call with a projection
  file does what the call without one does.
\<close>

lemma add_crs_from_prj_unchanged: "add_crs_from_prj l w self prj_file = Inr self"
  using splitext_not_prj[of prj_file]
  by (cases "splitext prj_file") (auto simp add: add_crs_from_prj_def)

lemma init_ignores_prj: "init l w src (Some prj) = init l w src None"
  by (simp add: init_def add_crs_from_prj_unchanged split: option.splits prod.splits)

text \<open>
  C4. The claim: when the projection file exists, its WKT overrides the CRS of the
  dataset. The code at \<open>/data/a.tif\<close> with the existing \<open>/data/a.prj\<close>, whose text parses to
  \<open>EPSG:32643\<close>: the extension is \<open>.prj\<close>, not \<open>prj\<close>, the file is not read, and the handle
  keeps the CRS \<open>EPSG:4326\<close> of the dataset.
\<close>

theorem prj_sidecar_not_applied:
  "exists demo_world ''/data/a.prj'' \<and>
   fs demo_world ''/data/a.prj'' = Some (File ''EPSG:32643'') \<and>
   from_wkt demo_lib ''EPSG:32643'' = Inr ''EPSG:32643'' \<and>
   splitext ''/data/a.prj'' = (''/data/a'', ''.prj'') \<and>
   init demo_lib demo_world (Some (SrcStr ''/data/a.tif'')) (Some ''/data/a.prj'')
     = (Inr demo_raster, []) \<and>
   get_crs demo_raster = Inr (Some ''EPSG:4326'')"
  by (simp add: exists_def demo_world_def demo_lib_def splitext_def rfind_def init_def
      set_dataset_def set_dataset_try_def add_crs_from_prj_def RioRaster0_def demo_raster_def
      get_crs_def demo_ds_def demo_meta_def)

text \<open>
  C5, as stated, fails: for the missing path \<open>/data/missing.tif\<close> the constructor returns
  an object, the empty one, and the \<open>FileNotFoundError\<close> is printed as a traceback, not
  raised.
\<close>

theorem open_missing_path_counterexample:
  "\<not> str_in ''/vsimem/'' ''/data/missing.tif'' \<and>
   \<not> exists demo_world ''/data/missing.tif'' \<and>
   init demo_lib demo_world (Some (SrcStr ''/data/missing.tif'')) None
     = (Inr RioRaster0, [Traceback (FileNotFoundError ''/data/missing.tif'')]) \<and>
   fst (init demo_lib demo_world (Some (SrcStr ''/data/missing.tif'')) None)
     \<noteq> Inl (FileNotFoundError ''/data/missing.tif'')"
  by (simp add: exists_def demo_world_def init_def set_dataset_def set_dataset_try_def)

text \<open>
  C5, amended: for a path that is not a memory URI and does not exist, the
  \<open>FileNotFoundError\<close> is caught inside \<open>set_dataset\<close> and printed, and the constructor
  returns the empty handle; and whatever exception the binding of a source raises, the
  constructor prints it and returns the empty handle.
\<close>

theorem open_errors_are_caught:
  "(\<not> str_in ''/vsimem/'' p \<and> \<not> exists w p \<longrightarrow>
      init l w (Some (SrcStr p)) prj = (Inr RioRaster0, [Traceback (FileNotFoundError p)])) \<and>
   (set_dataset_try l w RioRaster0 s = Inl e \<longrightarrow>
      init l w (Some s) prj = (Inr RioRaster0, [Traceback e]) \<and> empty RioRaster0)"
  by (auto simp add: init_def set_dataset_def set_dataset_try_def add_crs_from_prj_unchanged
      empty_def RioRaster0_def split: option.splits)

theorem open_errors_are_caught_witness:
  "\<not> str_in ''/vsimem/'' ''/data/missing.tif'' \<and> \<not> exists demo_world ''/data/missing.tif'' \<and>
   set_dataset_try demo_lib demo_world RioRaster0 (SrcStr ''/data/a.prj'')
     = Inl (RasterioIOError ''/data/a.prj'') \<and>
   init demo_lib demo_world (Some (SrcStr ''/data/missing.tif'')) (Some ''/data/a.prj'')
     = (Inr RioRaster0, [Traceback (FileNotFoundError ''/data/missing.tif'')]) \<and>
   init demo_lib demo_world (Some (SrcStr ''/data/a.prj'')) (Some ''/data/a.prj'')
     = (Inr RioRaster0, [Traceback (RasterioIOError ''/data/a.prj'')])"
proof -
  have a: "\<not> str_in ''/vsimem/'' ''/data/missing.tif'' \<and> \<not> exists demo_world ''/data/missing.tif''"
    by (simp add: exists_def demo_world_def)
  have b: "set_dataset_try demo_lib demo_world RioRaster0 (SrcStr ''/data/a.prj'')
     = Inl (RasterioIOError ''/data/a.prj'')"
    by (simp add: set_dataset_try_def exists_def demo_world_def)
  show ?thesis
    using a b
      open_errors_are_caught[where p = "''/data/missing.tif''" and w = demo_world
        and l = demo_lib and prj = "Some ''/data/a.prj''" and s = "SrcStr ''/data/a.prj''"
        and e = "RasterioIOError ''/data/a.prj''"]
    by simp
qed

section \<open>Materializing and reading back\<close>

lemma fst_shape3: "fst (shape3 bs) = length bs"
  by (cases bs) auto

text \<open>The write loop over all bands of a three-dimensional array stores the bands of the
  array: after band \<open>k\<close> the first \<open>k\<close> bands are written.\<close>

lemma write_loop_from:
  assumes "cells data = A3 bs"
    and "length (ds_bands dst) = length bs"
    and "m_count (ds_meta dst) = length bs"
    and "list_all (\<lambda>b. shape2 b = (m_height (ds_meta dst), m_width (ds_meta dst))) bs"
    and "k \<le> length bs"
  shows "write_loop l dst data [k..<length bs]
           = Inr (dst\<lparr>ds_bands := take k (ds_bands dst) @ drop k bs\<rparr>)"
  using assms
proof (induction "length bs - k" arbitrary: k dst)
  case 0
  then show ?case by simp
next
  case (Suc n)
  then have k: "k < length bs" by simp
  let ?dst1 = "dst\<lparr>ds_bands := (ds_bands dst)[k := bs ! k]\<rparr>"
  have shp: "shape2 (bs ! k) = (m_height (ds_meta dst), m_width (ds_meta dst))"
    using Suc.prems(4) k by (simp add: list_all_length)
  have w: "ds_write l dst (bs ! k) (k + 1) = Inr ?dst1"
    using k shp Suc.prems(3) by (simp add: ds_write_def fit_def)
  have b: "band_of data k = Inr (bs ! k)"
    using k Suc.prems(1) by (simp add: band_of_def)
  have ih: "write_loop l ?dst1 data [Suc k..<length bs]
              = Inr (?dst1\<lparr>ds_bands := take (Suc k) (ds_bands ?dst1) @ drop (Suc k) bs\<rparr>)"
    using Suc.hyps(1)[of "Suc k" ?dst1] Suc.hyps(2) Suc.prems k by simp
  have t: "take (Suc k) ((ds_bands dst)[k := bs ! k]) @ drop (Suc k) bs
             = take k (ds_bands dst) @ drop k bs"
    using k Suc.prems(2)
    by (simp add: take_Suc_conv_app_nth Cons_nth_drop_Suc)
  have "[k..<length bs] = k # [Suc k..<length bs]"
    using k by (simp add: upt_conv_Cons)
  then show ?case using w b ih t by simp
qed

lemma write_loop_A3:
  assumes "cells data = A3 bs"
    and "length (ds_bands dst) = length bs"
    and "m_count (ds_meta dst) = length bs"
    and "list_all (\<lambda>b. shape2 b = (m_height (ds_meta dst), m_width (ds_meta dst))) bs"
  shows "write_loop l dst data [0..<length bs] = Inr (dst\<lparr>ds_bands := bs\<rparr>)"
  using write_loop_from[OF assms, of 0] by simp

text \<open>Bands of the dataset's shape are stored as they are.\<close>

lemma map_fit:
  "list_all (\<lambda>b. shape2 b = (m_height (ds_meta dst), m_width (ds_meta dst))) bs \<Longrightarrow>
   map (fit l dst) bs = bs"
  by (induction bs) (auto simp add: fit_def)

text \<open>The constructor keeps a dataset of a memory file as it is.\<close>

lemma init_memfile:
  "ds_name d = ''/vsimem/memfile/memfile.tif'' \<Longrightarrow>
   init l w (Some (SrcReader d)) None = (Inr \<lparr>dataset = Some d\<rparr>, [])"
  by (simp add: init_def set_dataset_def set_dataset_try_def RioRaster0_def)

lemma raster_from_array_result:
  assumes "uniform A"
    and "creatable l \<lparr>m_driver = ''GTiff'', m_dtype = dtype A, m_nodata = nd,
                      m_width = snd (rows_cols A), m_height = fst (rows_cols A),
                      m_count = band_count A, m_crs = crs, m_transform = t\<rparr>"
  shows "raster_from_array l w A crs t nd =
           (Some \<lparr>dataset = Some \<lparr>ds_name = ''/vsimem/memfile/memfile.tif'',
                     ds_meta = \<lparr>m_driver = ''GTiff'', m_dtype = dtype A, m_nodata = nd,
                                m_width = snd (rows_cols A), m_height = fst (rows_cols A),
                                m_count = band_count A, m_crs = crs, m_transform = t\<rparr>,
                     ds_bands = as_bands A,
                     ds_descriptions = replicate (band_count A) None\<rparr>\<rparr>, [])"
proof (cases "cells A")
  case (A2 d)
  then show ?thesis
    using assms(2)
    by (auto simp add: raster_from_array_def band_count_def rows_cols_def memfile_open_def
        band_of_def ds_write_def fit_def as_bands_def init_memfile Let_def split: prod.splits)
next
  case (A3 bs)
  let ?kw = "\<lparr>m_driver = ''GTiff'', m_dtype = dtype A, m_nodata = nd,
                      m_width = snd (rows_cols A), m_height = fst (rows_cols A),
                      m_count = band_count A, m_crs = crs, m_transform = t\<rparr>"
  let ?dst = "\<lparr>ds_name = ''/vsimem/memfile/memfile.tif'', ds_meta = ?kw,
                ds_bands = replicate (m_count ?kw)
                             (replicate (m_height ?kw) (replicate (m_width ?kw) (Num 0))),
                ds_descriptions = replicate (m_count ?kw) None\<rparr>"
  have bc: "band_count A = length bs" using A3 by (simp add: band_count_def fst_shape3)
  have rc: "rows_cols A = snd (shape3 bs)" using A3 by (simp add: rows_cols_def)
  have mo: "memfile_open l ?kw = Inr ?dst" using assms(2) by (simp add: memfile_open_def)
  have u: "list_all (\<lambda>b. shape2 b = (m_height (ds_meta ?dst), m_width (ds_meta ?dst))) bs"
    using assms(1) A3 rc by (simp add: uniform_def)
  have wl: "write_loop l ?dst A [0..<length bs] = Inr (?dst\<lparr>ds_bands := bs\<rparr>)"
    by (rule write_loop_A3[OF A3 _ _ u]) (simp_all add: bc)
  show ?thesis
    using A3 mo wl bc
    by (auto simp add: raster_from_array_def as_bands_def init_memfile Let_def rc
        split: prod.splits)
qed

text \<open>A three-dimensional array comes back as it went in.\<close>

lemma roundtrip_3d:
  assumes "cells A = A3 bs" and "uniform A"
    and "creatable l \<lparr>m_driver = ''GTiff'', m_dtype = dtype A, m_nodata = nd,
                      m_width = snd (rows_cols A), m_height = fst (rows_cols A),
                      m_count = band_count A, m_crs = crs, m_transform = t\<rparr>"
  shows "\<exists>r. raster_from_array l w A crs t nd = (Some r, []) \<and>
             get_data_array l r None False = Inr A"
  using raster_from_array_result[OF assms(2,3), of w] assms(1)
  by (simp add: get_data_array_def ds_read_def as_bands_def)

text \<open>
  C6, as stated, fails: the two-dimensional array \<open>[[1, 2], [3, 4]]\<close> is materialized, and
  \<open>get_data_array\<close> returns the three-dimensional \<open>[[[1, 2], [3, 4]]]\<close> of shape (1, 2, 2),
  which is not the array that went in. And where the driver refuses the creation
  options, \<open>raster_from_array\<close> prints the error and returns \<open>None\<close>, so there is no handle
  to read from.
\<close>

theorem materialize_roundtrip_counterexample:
  "fst (raster_from_array demo_lib demo_world demo_array2 (Some ''EPSG:4326'') demo_transform None)
     \<noteq> None \<and>
   get_data_array demo_lib
       (the (fst (raster_from_array demo_lib demo_world demo_array2 (Some ''EPSG:4326'')
                    demo_transform None))) None False
     = Inr \<lparr>dtype = ''uint8'', cells = A3 [[[Num 1, Num 2], [Num 3, Num 4]]]\<rparr> \<and>
   get_data_array demo_lib
       (the (fst (raster_from_array demo_lib demo_world demo_array2 (Some ''EPSG:4326'')
                    demo_transform None))) None False
     \<noteq> Inr demo_array2 \<and>
   raster_from_array (demo_lib\<lparr>creatable := (\<lambda>kw. False)\<rparr>) demo_world demo_array3
       (Some ''EPSG:4326'') demo_transform None
     = (None, [Print ''Error creating raster from array'',
               Traceback (RasterioIOError ''MemoryFile'')])"
  by (simp add: raster_from_array_def demo_array2_def demo_array3_def band_count_def
      rows_cols_def memfile_open_def demo_lib_def band_of_def ds_write_def fit_def init_def
      set_dataset_def set_dataset_try_def RioRaster0_def get_data_array_def ds_read_def)

text \<open>
  C6, amended: for every array and every metadata bundle whose creation options the
  driver accepts, \<open>raster_from_array\<close> returns a handle, and \<open>get_data_array\<close> on it
  returns, within the precision of the dtype, the three-dimensional array of the bands
  of the input: the input itself when it is three-dimensional, the input under one more
  leading axis when it is two-dimensional. The CRS and the transform of the handle are
  the supplied ones. The array may hold integers or floats, NaN and the infinities
  included; \<open>uniform\<close> says of the nested lists what holds of every numpy array, that
  all bands have one shape. In the model the memory file gives back the samples it was
  given, so the arrays are equal sample for sample.
\<close>

theorem materialize_roundtrip:
  assumes "uniform A"
    and "creatable l \<lparr>m_driver = ''GTiff'', m_dtype = dtype A, m_nodata = nd,
                      m_width = snd (rows_cols A), m_height = fst (rows_cols A),
                      m_count = band_count A, m_crs = crs, m_transform = t\<rparr>"
  shows "\<exists>r. raster_from_array l w A crs t nd = (Some r, []) \<and>
             get_data_array l r None False = Inr \<lparr>dtype = dtype A, cells = A3 (as_bands A)\<rparr> \<and>
             get_crs r = Inr crs \<and> get_geo_transform r = Inr t"
  using raster_from_array_result[OF assms, of w]
  by (simp add: get_data_array_def ds_read_def get_crs_def get_geo_transform_def)

theorem materialize_roundtrip_witness:
  "uniform demo_floats \<and>
   (\<exists>r. raster_from_array demo_lib demo_world demo_floats (Some ''EPSG:4326'') demo_transform
          (Some NaN) = (Some r, []) \<and>
        get_data_array demo_lib r None False = Inr demo_floats \<and>
        get_crs r = Inr (Some ''EPSG:4326'') \<and> get_geo_transform r = Inr demo_transform) \<and>
   uniform demo_array2 \<and>
   (\<exists>r. raster_from_array demo_lib demo_world demo_array2 None demo_transform (Some (Num 0))
          = (Some r, []) \<and>
        get_data_array demo_lib r None False
          = Inr \<lparr>dtype = ''uint8'', cells = A3 [[[Num 1, Num 2], [Num 3, Num 4]]]\<rparr> \<and>
        get_crs r = Inr None \<and> get_geo_transform r = Inr demo_transform)"
proof -
  have u: "uniform demo_floats" by (simp add: uniform_def demo_floats_def)
  have c: "creatable demo_lib \<lparr>m_driver = ''GTiff'', m_dtype = dtype demo_floats,
              m_nodata = Some NaN, m_width = snd (rows_cols demo_floats),
              m_height = fst (rows_cols demo_floats), m_count = band_count demo_floats,
              m_crs = Some ''EPSG:4326'', m_transform = demo_transform\<rparr>"
    by (simp add: demo_lib_def)
  have a: "\<lparr>dtype = dtype demo_floats, cells = A3 (as_bands demo_floats)\<rparr> = demo_floats"
    by (simp add: demo_floats_def as_bands_def)
  have u2: "uniform demo_array2" by (simp add: uniform_def demo_array2_def)
  have c2: "creatable demo_lib \<lparr>m_driver = ''GTiff'', m_dtype = dtype demo_array2,
              m_nodata = Some (Num 0), m_width = snd (rows_cols demo_array2),
              m_height = fst (rows_cols demo_array2), m_count = band_count demo_array2,
              m_crs = None, m_transform = demo_transform\<rparr>"
    by (simp add: demo_lib_def)
  have a2: "\<lparr>dtype = dtype demo_array2, cells = A3 (as_bands demo_array2)\<rparr>
              = \<lparr>dtype = ''uint8'', cells = A3 [[[Num 1, Num 2], [Num 3, Num 4]]]\<rparr>"
    by (simp add: demo_array2_def as_bands_def)
  show ?thesis
    using u u2 materialize_roundtrip[OF u c, of demo_world]
      materialize_roundtrip[OF u2 c2, of demo_world] a a2
    by simp
qed

section \<open>Clipping: the reprojection test and the missing \<open>get_bounds\<close>\<close>

lemma reprojections_append: "reprojections (xs @ ys) = reprojections xs @ reprojections ys"
  by (induction xs rule: reprojections.induct) auto

lemma init_out_reprojections: "init l w src prj = (r, out) \<Longrightarrow> reprojections out = []"
  by (auto simp add: init_def set_dataset_def add_crs_from_prj_unchanged
      split: option.splits sum.splits prod.splits)

text \<open>Nothing but \<open>clip_raster\<close> itself consults \<open>to_crs\<close>.\<close>

lemma memfile_open_to_crs: "memfile_open (l\<lparr>to_crs := g\<rparr>) = memfile_open l"
  by (rule ext) (simp add: memfile_open_def)

lemma write_loop_to_crs: "write_loop (l\<lparr>to_crs := g\<rparr>) dst data is = write_loop l dst data is"
  by (induction "is" arbitrary: dst) (auto simp add: ds_write_def fit_def split: sum.splits)

lemma rio_dataset_from_array_to_crs:
  "rio_dataset_from_array (l\<lparr>to_crs := g\<rparr>) = rio_dataset_from_array l"
  by (intro ext)
    (simp add: rio_dataset_from_array_def memfile_open_to_crs write_loop_to_crs
      cong: sum.case_cong)

lemma set_dataset_to_crs: "set_dataset (l\<lparr>to_crs := g\<rparr>) = set_dataset l"
  by (intro ext)
    (simp add: set_dataset_def set_dataset_try_def rio_dataset_from_array_to_crs
      split: source.splits)

lemma init_to_crs: "init (l\<lparr>to_crs := g\<rparr>) = init l"
  by (intro ext)
    (simp add: init_def set_dataset_to_crs add_crs_from_prj_unchanged
      split: option.splits prod.splits)

text \<open>The clip of a frame whose CRS text is the raster's uses the geometries of the frame
  as they are and calls no reprojection.\<close>

lemma clip_frame_same_crs:
  assumes "dataset self = Some ds" and "gdf_crs fr = m_crs (ds_meta ds)"
  shows "clip_raster l w ns self (Frame fr) in_place crs =
           clip_raster (l\<lparr>to_crs := (\<lambda>g c. Inr fr)\<rparr>) w ns self (Frame fr) in_place crs"
  using assms
  by (simp add: clip_raster_def get_crs_def Let_def as_frame_def init_to_crs
      rio_dataset_from_array_to_crs
      cong: option.case_cong sum.case_cong prod.case_cong if_cong)

text \<open>
  C9. On a handle with a dataset, \<open>clip_raster\<close> reprojects exactly when the lowercased
  texts of the AOI's CRS and of the raster's CRS differ. Then \<open>to_crs\<close> is called once, on
  the AOI and with the raster's CRS: when it raises, \<open>clip_raster\<close> raises the same; when
  it returns a frame, the clip goes on with that frame, and its outcome is that of
  clipping the returned frame, labelled with the raster's CRS, after the event of the
  call. When the lowercased texts are equal there is no call, and the AOI is used as
  supplied: the outcome does not depend on what \<open>to_crs\<close> would do. This holds in every
  name space, library and world; the lowercasing is \<open>str.lower\<close> of the library.
\<close>

theorem clip_reprojects_iff_crs_text_differs:
  assumes "dataset self = Some ds"
  shows "reprojections (snd (snd (clip_raster l w ns self a in_place crs))) =
           (if str_lower l (py_str (gdf_crs (as_frame a crs)))
                 \<noteq> str_lower l (py_str (m_crs (ds_meta ds)))
            then [(as_frame a crs, m_crs (ds_meta ds))] else []) \<and>
         (str_lower l (py_str (gdf_crs (as_frame a crs)))
            = str_lower l (py_str (m_crs (ds_meta ds))) \<longrightarrow>
            clip_raster (l\<lparr>to_crs := g\<rparr>) w ns self a in_place crs
              = clip_raster l w ns self a in_place crs) \<and>
         (str_lower l (py_str (gdf_crs (as_frame a crs)))
            \<noteq> str_lower l (py_str (m_crs (ds_meta ds))) \<and>
          to_crs l (as_frame a crs) (m_crs (ds_meta ds)) = Inl e \<longrightarrow>
            clip_raster l w ns self a in_place crs
              = (Inl e, self, [ToCrs (as_frame a crs) (m_crs (ds_meta ds))])) \<and>
         (str_lower l (py_str (gdf_crs (as_frame a crs)))
            \<noteq> str_lower l (py_str (m_crs (ds_meta ds))) \<and>
          to_crs l (as_frame a crs) (m_crs (ds_meta ds)) = Inr geo \<longrightarrow>
            clip_raster l w ns self a in_place crs
              = (case clip_raster l w ns self (Frame (geo\<lparr>gdf_crs := m_crs (ds_meta ds)\<rparr>))
                        in_place crs of
                   (r, s, ev) \<Rightarrow> (r, s, ToCrs (as_frame a crs) (m_crs (ds_meta ds)) # ev)))"
proof (intro conjI)
  show "reprojections (snd (snd (clip_raster l w ns self a in_place crs))) =
           (if str_lower l (py_str (gdf_crs (as_frame a crs)))
                 \<noteq> str_lower l (py_str (m_crs (ds_meta ds)))
            then [(as_frame a crs, m_crs (ds_meta ds))] else [])"
    using assms
    by (auto simp add: clip_raster_def get_crs_def Let_def call_to_crs_def reprojections_append
        split: sum.splits prod.splits option.splits
        dest: init_out_reprojections)
next
  show "str_lower l (py_str (gdf_crs (as_frame a crs)))
            = str_lower l (py_str (m_crs (ds_meta ds))) \<longrightarrow>
            clip_raster (l\<lparr>to_crs := g\<rparr>) w ns self a in_place crs
              = clip_raster l w ns self a in_place crs"
    using assms
    by (simp add: clip_raster_def get_crs_def Let_def init_to_crs
        rio_dataset_from_array_to_crs
        cong: option.case_cong sum.case_cong prod.case_cong if_cong)
next
  show "str_lower l (py_str (gdf_crs (as_frame a crs)))
            \<noteq> str_lower l (py_str (m_crs (ds_meta ds))) \<and>
          to_crs l (as_frame a crs) (m_crs (ds_meta ds)) = Inl e \<longrightarrow>
            clip_raster l w ns self a in_place crs
              = (Inl e, self, [ToCrs (as_frame a crs) (m_crs (ds_meta ds))])"
    using assms
    by (simp add: clip_raster_def get_crs_def Let_def call_to_crs_def)
next
  show "str_lower l (py_str (gdf_crs (as_frame a crs)))
            \<noteq> str_lower l (py_str (m_crs (ds_meta ds))) \<and>
          to_crs l (as_frame a crs) (m_crs (ds_meta ds)) = Inr geo \<longrightarrow>
            clip_raster l w ns self a in_place crs
              = (case clip_raster l w ns self (Frame (geo\<lparr>gdf_crs := m_crs (ds_meta ds)\<rparr>))
                        in_place crs of
                   (r, s, ev) \<Rightarrow> (r, s, ToCrs (as_frame a crs) (m_crs (ds_meta ds)) # ev))"
    using assms
    by (auto simp add: clip_raster_def get_crs_def Let_def call_to_crs_def as_frame_def
        split: sum.splits prod.splits option.splits aoi.splits)
qed

theorem clip_reprojects_iff_crs_text_differs_witness:
  "dataset demo_raster = Some demo_ds \<and>
   str_lower demo_lib (py_str (gdf_crs (as_frame demo_near None)))
     = str_lower demo_lib (py_str (m_crs (ds_meta demo_ds))) \<and>
   reprojections (snd (snd (clip_raster demo_lib demo_world demo_namespace demo_raster demo_near
                              True None))) = [] \<and>
   clip_raster (demo_lib\<lparr>to_crs := (\<lambda>f c. Inl (LibraryError ''to_crs''))\<rparr>) demo_world
       demo_namespace demo_raster demo_near True None
     = clip_raster demo_lib demo_world demo_namespace demo_raster demo_near True None \<and>
   str_lower demo_lib (py_str (gdf_crs (as_frame (Shape (Polygon [])) (Some ''EPSG:3857''))))
     \<noteq> str_lower demo_lib (py_str (m_crs (ds_meta demo_ds))) \<and>
   to_crs demo_lib (as_frame (Shape (Polygon [])) (Some ''EPSG:3857'')) (m_crs (ds_meta demo_ds))
     = Inr \<lparr>gdf_crs = Some ''EPSG:4326'', geometries = [Polygon []]\<rparr> \<and>
   reprojections (snd (snd (clip_raster demo_lib demo_world demo_namespace demo_raster
                              (Shape (Polygon [])) True (Some ''EPSG:3857''))))
     = [(\<lparr>gdf_crs = Some ''EPSG:3857'', geometries = [Polygon []]\<rparr>, Some ''EPSG:4326'')] \<and>
   clip_raster demo_lib demo_world demo_namespace demo_raster (Shape (Polygon [])) True
       (Some ''EPSG:3857'')
     = (case clip_raster demo_lib demo_world demo_namespace demo_raster
               (Frame \<lparr>gdf_crs = Some ''EPSG:4326'', geometries = [Polygon []]\<rparr>) True
               (Some ''EPSG:3857'') of
          (r, s, ev) \<Rightarrow>
            (r, s, ToCrs \<lparr>gdf_crs = Some ''EPSG:3857'', geometries = [Polygon []]\<rparr>
                     (Some ''EPSG:4326'') # ev)) \<and>
   to_crs (demo_lib\<lparr>to_crs := (\<lambda>f c. Inl (LibraryError ''to_crs''))\<rparr>)
       (as_frame (Shape (Polygon [])) (Some ''EPSG:3857'')) (m_crs (ds_meta demo_ds))
     = Inl (LibraryError ''to_crs'') \<and>
   clip_raster (demo_lib\<lparr>to_crs := (\<lambda>f c. Inl (LibraryError ''to_crs''))\<rparr>) demo_world
       demo_namespace demo_raster (Shape (Polygon [])) True (Some ''EPSG:3857'')
     = (Inl (LibraryError ''to_crs''), demo_raster,
        [ToCrs \<lparr>gdf_crs = Some ''EPSG:3857'', geometries = [Polygon []]\<rparr> (Some ''EPSG:4326'')])"
proof -
  have d: "dataset demo_raster = Some demo_ds" by (simp add: demo_raster_def)
  have e: "str_lower demo_lib (py_str (gdf_crs (as_frame demo_near None)))
             = str_lower demo_lib (py_str (m_crs (ds_meta demo_ds)))"
    by (simp add: as_frame_def demo_near_def py_str_def demo_ds_def demo_meta_def demo_lib_def
        ascii_lower_def ascii_lower_char_def)
  have n: "str_lower demo_lib
             (py_str (gdf_crs (as_frame (Shape (Polygon [])) (Some ''EPSG:3857''))))
             \<noteq> str_lower demo_lib (py_str (m_crs (ds_meta demo_ds)))"
    by (simp add: as_frame_def py_str_def demo_ds_def demo_meta_def demo_lib_def
        ascii_lower_def ascii_lower_char_def)
  have n': "str_lower (demo_lib\<lparr>to_crs := (\<lambda>f c. Inl (LibraryError ''to_crs''))\<rparr>)
             (py_str (gdf_crs (as_frame (Shape (Polygon [])) (Some ''EPSG:3857''))))
             \<noteq> str_lower (demo_lib\<lparr>to_crs := (\<lambda>f c. Inl (LibraryError ''to_crs''))\<rparr>)
                 (py_str (m_crs (ds_meta demo_ds)))"
    using n by simp
  have t: "to_crs demo_lib (as_frame (Shape (Polygon [])) (Some ''EPSG:3857''))
             (m_crs (ds_meta demo_ds))
             = Inr \<lparr>gdf_crs = Some ''EPSG:4326'', geometries = [Polygon []]\<rparr>"
    by (simp add: as_frame_def demo_lib_def demo_ds_def demo_meta_def)
  have f: "to_crs (demo_lib\<lparr>to_crs := (\<lambda>f c. Inl (LibraryError ''to_crs''))\<rparr>)
             (as_frame (Shape (Polygon [])) (Some ''EPSG:3857'')) (m_crs (ds_meta demo_ds))
             = Inl (LibraryError ''to_crs'')"
    by simp
  have fr: "as_frame (Shape (Polygon [])) (Some ''EPSG:3857'')
              = \<lparr>gdf_crs = Some ''EPSG:3857'', geometries = [Polygon []]\<rparr>"
    by (simp add: as_frame_def)
  have rc: "m_crs (ds_meta demo_ds) = Some ''EPSG:4326''"
    by (simp add: demo_ds_def demo_meta_def)
  note same = clip_reprojects_iff_crs_text_differs[OF d, where a = demo_near and crs = None
      and l = demo_lib and w = demo_world and ns = demo_namespace and in_place = True
      and g = "\<lambda>f c. Inl (LibraryError ''to_crs'')"]
  note other = clip_reprojects_iff_crs_text_differs[OF d, where a = "Shape (Polygon [])"
      and crs = "Some ''EPSG:3857''" and l = demo_lib and w = demo_world
      and ns = demo_namespace and in_place = True
      and geo = "\<lparr>gdf_crs = Some ''EPSG:4326'', geometries = [Polygon []]\<rparr>"]
  note failing = clip_reprojects_iff_crs_text_differs[OF d, where a = "Shape (Polygon [])"
      and crs = "Some ''EPSG:3857''"
      and l = "demo_lib\<lparr>to_crs := (\<lambda>f c. Inl (LibraryError ''to_crs''))\<rparr>"
      and w = demo_world and ns = demo_namespace and in_place = True
      and e = "LibraryError ''to_crs''"]
  have s1: "reprojections (snd (snd (clip_raster demo_lib demo_world demo_namespace demo_raster
                                       demo_near True None))) = []"
    using same[THEN conjunct1] e by simp
  have s2: "clip_raster (demo_lib\<lparr>to_crs := (\<lambda>f c. Inl (LibraryError ''to_crs''))\<rparr>) demo_world
              demo_namespace demo_raster demo_near True None
            = clip_raster demo_lib demo_world demo_namespace demo_raster demo_near True None"
    using same[THEN conjunct2, THEN conjunct1] e by simp
  have o1: "reprojections (snd (snd (clip_raster demo_lib demo_world demo_namespace demo_raster
                                       (Shape (Polygon [])) True (Some ''EPSG:3857''))))
            = [(\<lparr>gdf_crs = Some ''EPSG:3857'', geometries = [Polygon []]\<rparr>, Some ''EPSG:4326'')]"
    using other[THEN conjunct1] n by (simp add: fr rc)
  have o2: "clip_raster demo_lib demo_world demo_namespace demo_raster (Shape (Polygon [])) True
              (Some ''EPSG:3857'')
            = (case clip_raster demo_lib demo_world demo_namespace demo_raster
                      (Frame \<lparr>gdf_crs = Some ''EPSG:4326'', geometries = [Polygon []]\<rparr>) True
                      (Some ''EPSG:3857'') of
                 (r, s, ev) \<Rightarrow>
                   (r, s, ToCrs \<lparr>gdf_crs = Some ''EPSG:3857'', geometries = [Polygon []]\<rparr>
                            (Some ''EPSG:4326'') # ev))"
    using other[THEN conjunct2, THEN conjunct2, THEN conjunct2] n t by (simp add: fr rc)
  have f1: "clip_raster (demo_lib\<lparr>to_crs := (\<lambda>f c. Inl (LibraryError ''to_crs''))\<rparr>) demo_world
              demo_namespace demo_raster (Shape (Polygon [])) True (Some ''EPSG:3857'')
            = (Inl (LibraryError ''to_crs''), demo_raster,
               [ToCrs \<lparr>gdf_crs = Some ''EPSG:3857'', geometries = [Polygon []]\<rparr>
                  (Some ''EPSG:4326'')])"
    using failing[THEN conjunct2, THEN conjunct2, THEN conjunct1] n' f by (simp add: fr rc)
  show ?thesis
    using d e s1 s2 n t o1 o2 f f1 by (intro conjI)
qed

text \<open>With the name space of the module, \<open>clip_raster\<close> raises on every input and leaves
  \<open>self\<close> as it was: the call \<open>self.get_bounds()\<close> comes before the intersection test.\<close>

lemma clip_module_raises:
  "\<exists>e ev. clip_raster l w module_namespace self a in_place crs = (Inl e, self, ev)"
  by (auto simp add: clip_raster_def module_namespace_def call_get_bounds_def get_crs_def Let_def
      split: option.splits sum.splits prod.splits)

text \<open>Where \<open>get_bounds\<close> is bound, the short circuit is what the comments of the method
  say: the empty object is returned, \<open>self\<close> is emptied when \<open>in_place\<close>, and \<open>mask\<close> is not
  called.\<close>

lemma clip_short_circuit:
  assumes "dataset self = Some ds"
    and "get_bounds ns = Some f" and "f self = Inr rb"
    and "str_lower l (py_str (gdf_crs fr)) = str_lower l (py_str (m_crs (ds_meta ds)))"
    and "list_all (\<lambda>b. \<not> intersects l rb b) (map (geom_bounds l) (geometries fr))"
  shows "clip_raster l w ns self (Frame fr) in_place crs =
           (Inr (ReturnNew RioRaster0), (if in_place then self\<lparr>dataset := None\<rparr> else self),
            [Print ''Raster does not intersect with AOI, returning an empty raster''])"
  using assms
  by (simp add: clip_raster_def call_get_bounds_def get_crs_def Let_def as_frame_def)

text \<open>
  C1. The claim: an AOI none of whose boxes intersects the raster's box gives the empty
  handle and, in place, empties \<open>self\<close>. The code on the demo raster (bounds
  \<open>(0, 0, 2, 2)\<close>) and the AOI at \<open>(10, 10, 11, 11)\<close>, in place: \<open>AttributeError\<close> for
  \<open>get_bounds\<close>, and \<open>self\<close> keeps its dataset. With \<open>get_bounds\<close> bound, the same call does
  what the claim says.
\<close>

theorem clip_no_intersection_raises:
  "list_all (\<lambda>b. \<not> intersects demo_lib (0, 0, 2, 2) b)
     (map (geom_bounds demo_lib) [Polygon [(10, 10), (11, 10), (11, 11), (10, 11)]]) \<and>
   clip_raster demo_lib demo_world module_namespace demo_raster demo_far True None
     = (Inl (AttributeError ''get_bounds''), demo_raster, []) \<and>
   \<not> empty demo_raster \<and>
   clip_raster demo_lib demo_world demo_namespace demo_raster demo_far True None
     = (Inr (ReturnNew RioRaster0), RioRaster0,
        [Print ''Raster does not intersect with AOI, returning an empty raster''])"
  by (simp add: clip_raster_def module_namespace_def demo_namespace_def call_get_bounds_def
      as_frame_def call_to_crs_def fit_def get_crs_def demo_far_def demo_raster_def demo_ds_def
      demo_meta_def py_str_def ascii_lower_def ascii_lower_char_def demo_lib_def empty_def RioRaster0_def)

text \<open>Writing bands changes neither the metadata nor the descriptions nor the name.\<close>

lemma ds_write_keeps:
  "ds_write l dst d i = Inr dst' \<Longrightarrow>
   ds_meta dst' = ds_meta dst \<and> ds_descriptions dst' = ds_descriptions dst \<and>
   ds_name dst' = ds_name dst"
  by (auto simp add: ds_write_def split: if_splits)

lemma write_loop_keeps:
  "write_loop l dst data is = Inr dst' \<Longrightarrow>
   ds_meta dst' = ds_meta dst \<and> ds_descriptions dst' = ds_descriptions dst \<and>
   ds_name dst' = ds_name dst"
proof (induction "is" arbitrary: dst)
  case Nil
  then show ?case by simp
next
  case (Cons i "is")
  from Cons.prems obtain d dst1 where
    s: "ds_write l dst d (i + 1) = Inr dst1" "write_loop l dst1 data is = Inr dst'"
    by (auto split: sum.splits)
  from Cons.IH[OF s(2)] ds_write_keeps[OF s(1)] show ?case by simp
qed

lemma rio_dataset_from_array_meta:
  assumes "rio_dataset_from_array l data m (Some descs) = Inr nd"
  shows "ds_meta nd = m \<and> ds_descriptions nd = descs"
proof -
  from assms obtain dst dst' where
    s: "memfile_open l m = Inr dst" "write_loop l dst data [0..<band_count data] = Inr dst'"
       "nd = dst'\<lparr>ds_descriptions := descs\<rparr>"
    by (auto simp add: rio_dataset_from_array_def Let_def split: sum.splits)
  from s(1) have "ds_meta dst = m" by (auto simp add: memfile_open_def split: if_splits)
  with write_loop_keeps[OF s(2)] s(3) show ?thesis by simp
qed

text \<open>Where \<open>get_bounds\<close> is bound, some box intersects, and the mask and the
  materialization succeed, the clip in place has the metadata the method derives: driver
  \<open>GTiff\<close>, height and width of the masked array, the transform of the mask, no-data 0,
  the CRS and the band descriptions of the source.\<close>

lemma clip_masked_result:
  assumes "dataset self = Some ds"
    and "get_bounds ns = Some f" and "f self = Inr rb"
    and "str_lower l (py_str (gdf_crs fr)) = str_lower l (py_str (m_crs (ds_meta ds)))"
    and "\<not> list_all (\<lambda>b. \<not> intersects l rb b) (map (geom_bounds l) (geometries fr))"
    and "mask l ds (geometries fr) True (Num 0) = Inr (out_img, out_transform)"
    and "m_count (ds_meta ds) \<noteq> 0"
    and "rio_dataset_from_array l \<lparr>dtype = m_dtype (ds_meta ds), cells = A3 out_img\<rparr>
           ((ds_meta ds)\<lparr>m_driver := ''GTiff'', m_height := fst (snd (shape3 out_img)),
                         m_width := snd (snd (shape3 out_img)), m_transform := out_transform,
                         m_nodata := Some (Num 0)\<rparr>)
           (Some (ds_descriptions ds)) = Inr new_ds"
  shows "clip_raster l w ns self (Frame fr) True crs
           = (Inr ReturnSelf, self\<lparr>dataset := Some new_ds\<rparr>, [Mask]) \<and>
         ds_meta new_ds = (ds_meta ds)\<lparr>m_driver := ''GTiff'',
                             m_height := fst (snd (shape3 out_img)),
                             m_width := snd (snd (shape3 out_img)),
                             m_transform := out_transform, m_nodata := Some (Num 0)\<rparr> \<and>
         ds_descriptions new_ds = ds_descriptions ds"
  using assms rio_dataset_from_array_meta[OF assms(8)]
  by (simp add: clip_raster_def call_get_bounds_def get_crs_def Let_def as_frame_def)

text \<open>
  C2. The claim: an intersecting AOI is masked with cropping and no-data 0, and the
  result carries the metadata derived from the mask. The code on the demo raster and
  the AOI on it, not in place: \<open>AttributeError\<close> for \<open>get_bounds\<close>; \<open>mask\<close> is not called and
  no raster is made. With \<open>get_bounds\<close> bound, the clip in place gives the dataset the
  claim describes.
\<close>

theorem clip_intersection_raises:
  "intersects demo_lib (0, 0, 2, 2)
     (geom_bounds demo_lib (Polygon [(0, 0), (1, 0), (1, 1), (0, 1)])) \<and>
   clip_raster demo_lib demo_world module_namespace demo_raster demo_near False None
     = (Inl (AttributeError ''get_bounds''), demo_raster, []) \<and>
   Mask \<notin> set (snd (snd (clip_raster demo_lib demo_world module_namespace demo_raster demo_near
                             False None))) \<and>
   clip_raster demo_lib demo_world demo_namespace demo_raster demo_near True None
     = (Inr ReturnSelf,
        \<lparr>dataset = Some \<lparr>ds_name = ''/vsimem/memfile/memfile.tif'',
                          ds_meta = demo_meta\<lparr>m_nodata := Some (Num 0)\<rparr>,
                          ds_bands = [[[Num 1, Num 2], [Num 3, Num 4]]],
                          ds_descriptions = [None]\<rparr>\<rparr>,
        [Mask])"
  by (simp add: clip_raster_def module_namespace_def demo_namespace_def call_get_bounds_def
      as_frame_def call_to_crs_def fit_def get_crs_def demo_near_def demo_raster_def demo_ds_def
      demo_meta_def py_str_def ascii_lower_def ascii_lower_char_def demo_lib_def rio_dataset_from_array_def band_count_def memfile_open_def
      band_of_def ds_write_def)

section \<open>Aligning: the missing \<open>get_bounds\<close>\<close>

lemma pad_module_raises:
  "dataset self = Some ds \<Longrightarrow>
   pad_raster l module_namespace self des_raster = (Inl (AttributeError ''get_bounds''), self)"
  by (simp add: pad_raster_def module_namespace_def call_get_bounds_def get_geo_transform_def)

text \<open>Where \<open>get_bounds\<close> is bound and the library maps the raster's own bounds to the
  window \<open>(0, 0, width, height)\<close> and that window to the raster's transform, padding
  a raster to itself keeps its metadata.\<close>

lemma pad_to_self_exact:
  assumes "dataset self = Some ds"
    and "get_bounds ns = Some f" and "f self = Inr (minx, miny, maxx, maxy)"
    and "rowcol l (m_transform (ds_meta ds)) (minx, maxx) (maxy, miny)
           = ((0, int (m_height (ds_meta ds))), (0, int (m_width (ds_meta ds))))"
    and "window_transform l (0, 0, int (m_width (ds_meta ds)), int (m_height (ds_meta ds)))
           (m_transform (ds_meta ds)) = m_transform (ds_meta ds)"
    and "creatable l (ds_meta ds)"
    and "read_window l ds (0, 0, int (m_width (ds_meta ds)), int (m_height (ds_meta ds)))
           (m_nodata (ds_meta ds)) = Inr bs"
    and "length bs = m_count (ds_meta ds)"
    and "list_all (\<lambda>b. shape2 b = (m_height (ds_meta ds), m_width (ds_meta ds))) bs"
  shows "pad_raster l ns self self =
           (Inr (), self\<lparr>dataset := Some \<lparr>ds_name = ''/vsimem/memfile/memfile.tif'',
                                            ds_meta = ds_meta ds, ds_bands = bs,
                                            ds_descriptions = replicate (m_count (ds_meta ds)) None\<rparr>\<rparr>)"
  using assms
  by (simp add: pad_raster_def call_get_bounds_def get_geo_transform_def Let_def
      memfile_open_def ds_write_all_def map_fit)

text \<open>
  C7. The claim: padding a raster to itself ends with the transform, width and height it
  had. The code on the demo raster: \<open>des_raster.get_bounds()\<close> raises \<open>AttributeError\<close>; no
  window is computed and no dataset is made.
\<close>

theorem pad_to_self_raises:
  "\<not> empty demo_raster \<and>
   pad_raster demo_lib module_namespace demo_raster demo_raster
     = (Inl (AttributeError ''get_bounds''), demo_raster)"
  by (simp add: pad_raster_def module_namespace_def call_get_bounds_def get_geo_transform_def
      demo_raster_def empty_def)

section \<open>Reclassifying: the missing names\<close>

text \<open>
  C3, as stated, fails: on the demo raster \<open>reclassify_raster\<close> raises \<open>AttributeError\<close> for
  \<open>get_spectral_resolution\<close>, which is called before the loop that names \<open>BandProcess\<close>; it
  does not raise \<open>NameError\<close>.
\<close>

theorem reclassify_error_counterexample:
  "\<not> empty demo_raster \<and>
   fst (reclassify_raster demo_lib demo_world module_namespace demo_raster demo_thresholds None
          (Num 0))
     = Inl (AttributeError ''get_spectral_resolution'') \<and>
   fst (reclassify_raster demo_lib demo_world module_namespace demo_raster demo_thresholds None
          (Num 0))
     \<noteq> Inl (NameError ''BandProcess'')"
  by (simp add: reclassify_raster_def module_namespace_def call_get_spectral_resolution_def
      get_nodata_value_def demo_raster_def empty_def)

text \<open>
  C3, amended: on every non-empty handle and for every threshold rule set,
  \<open>reclassify_raster\<close> raises \<open>AttributeError\<close> (the class defines no
  \<open>get_spectral_resolution\<close>) before it produces a result, prints nothing and leaves the
  handle as it was.
\<close>

theorem reclassify_raises_attribute_error:
  "\<not> empty self \<Longrightarrow>
   reclassify_raster l w module_namespace self th band nodata
     = (Inl (AttributeError ''get_spectral_resolution''), self, [])"
  by (auto simp add: reclassify_raster_def module_namespace_def call_get_spectral_resolution_def
      get_nodata_value_def empty_def)

theorem reclassify_raises_attribute_error_witness:
  "\<not> empty demo_raster \<and>
   reclassify_raster demo_lib demo_world module_namespace demo_raster demo_thresholds (Some 1)
       (Num 0)
     = (Inl (AttributeError ''get_spectral_resolution''), demo_raster, [])"
proof -
  have h: "\<not> empty demo_raster" by (simp add: empty_def demo_raster_def)
  show ?thesis
    using h reclassify_raises_attribute_error[OF h, of demo_lib demo_world demo_thresholds
        "Some 1" "Num 0"]
    by simp
qed

text \<open>Past the missing method: where \<open>get_spectral_resolution\<close> is bound and reports at
  least one band while \<open>BandProcess\<close> is not bound, the first turn of the loop raises the
  \<open>NameError\<close>.\<close>

lemma reclassify_name_error:
  assumes "dataset self = Some ds" and "ds_bands ds \<noteq> []"
    and "get_spectral_resolution ns = Some f" and "f self = Inr (Suc n)"
    and "BandProcess ns = None"
  shows "reclassify_raster l w ns self th band nodata = (Inl (NameError ''BandProcess''), self, [])"
proof -
  have "[0..<Suc n] = 0 # [1..<Suc n]" by (simp add: upt_conv_Cons)
  moreover have "1 \<le> length (ds_bands ds)" using assms(2) by (cases "ds_bands ds") auto
  ultimately show ?thesis
    using assms
    by (simp add: reclassify_raster_def call_get_spectral_resolution_def get_nodata_value_def
        get_data_array_def ds_read_band_def call_reclassify_band_def Let_def
        del: upt_Suc)
qed

text \<open>Where both names are bound and the loop and the stacking succeed, the result is a
  new handle of dtype \<open>uint8\<close> with the CRS, transform and no-data value of the source, and
  \<open>self\<close> is as it was.\<close>

lemma reclassify_result_when_bound:
  assumes "dataset self = Some ds"
    and "get_spectral_resolution ns = Some f" and "f self = Inr (Suc n)"
    and "reclassify_loop l ns self th
           (case m_nodata (ds_meta ds) of
              None \<Rightarrow> nodata
            | Some v \<Rightarrow> (if v \<noteq> nodata then v else nodata))
           [0..<Suc n] [] = Inr res"
    and "np_stack res = Inr stacked"
    and "uniform (astype_u8 l stacked)"
    and "creatable l \<lparr>m_driver = ''GTiff'', m_dtype = ''uint8'', m_nodata = m_nodata (ds_meta ds),
                      m_width = snd (rows_cols (astype_u8 l stacked)),
                      m_height = fst (rows_cols (astype_u8 l stacked)),
                      m_count = band_count (astype_u8 l stacked), m_crs = m_crs (ds_meta ds),
                      m_transform = m_transform (ds_meta ds)\<rparr>"
  shows "\<exists>r d. reclassify_raster l w ns self th band nodata = (Inr (Some r), self, []) \<and>
               dataset r = Some d \<and> m_dtype (ds_meta d) = ''uint8'' \<and>
               m_crs (ds_meta d) = m_crs (ds_meta ds) \<and>
               m_transform (ds_meta d) = m_transform (ds_meta ds) \<and>
               m_nodata (ds_meta d) = m_nodata (ds_meta ds)"
proof -
  have dt: "dtype (astype_u8 l stacked) = ''uint8''" by (simp add: astype_u8_def)
  from raster_from_array_result[OF assms(6), of l "m_nodata (ds_meta ds)" "m_crs (ds_meta ds)"
      "m_transform (ds_meta ds)" w] assms(7) dt
  obtain r d where r: "raster_from_array l w (astype_u8 l stacked) (m_crs (ds_meta ds))
        (m_transform (ds_meta ds)) (m_nodata (ds_meta ds)) = (Some r, [])"
      "dataset r = Some d" "m_dtype (ds_meta d) = ''uint8''"
      "m_crs (ds_meta d) = m_crs (ds_meta ds)"
      "m_transform (ds_meta d) = m_transform (ds_meta ds)"
      "m_nodata (ds_meta d) = m_nodata (ds_meta ds)"
    by simp
  have "reclassify_raster l w ns self th band nodata = (Inr (Some r), self, [])"
    using assms(1-5) r(1)
    by (simp add: reclassify_raster_def call_get_spectral_resolution_def get_nodata_value_def
        rio_raster_from_array_def get_meta_def get_crs_def get_geo_transform_def Let_def
        del: upt_Suc reclassify_loop.simps)
  with r show ?thesis by blast
qed

text \<open>
  C8. The claim: \<open>reclassify_raster\<close> returns a new handle of dtype \<open>uint8\<close> with the CRS,
  transform and no-data value of the source. The code on the demo raster with the
  thresholds of the docstring: \<open>AttributeError\<close>, no handle; and with
  \<open>get_spectral_resolution\<close> alone bound, \<open>NameError\<close>, no handle.
\<close>

theorem reclassify_returns_no_raster:
  "reclassify_raster demo_lib demo_world module_namespace demo_raster demo_thresholds None (Num 0)
     = (Inl (AttributeError ''get_spectral_resolution''), demo_raster, []) \<and>
   reclassify_raster demo_lib demo_world
       (module_namespace\<lparr>get_spectral_resolution := get_spectral_resolution demo_namespace\<rparr>)
       demo_raster demo_thresholds None (Num 0)
     = (Inl (NameError ''BandProcess''), demo_raster, [])"
  by (simp add: reclassify_raster_def module_namespace_def demo_namespace_def
      call_get_spectral_resolution_def get_nodata_value_def demo_raster_def demo_ds_def
      demo_meta_def get_data_array_def ds_read_band_def call_reclassify_band_def)

section \<open>Writing a file: the directory at the destination\<close>


text \<open>Whenever \<open>os.makedirs\<close> returns, the destination path itself is a directory.\<close>

lemma os_makedirs_dir: "os_makedirs w p = Inr w1 \<Longrightarrow> fs w1 p = Some Dir"
  by (auto simp add: os_makedirs_def split: if_splits option.splits node.splits)




end
